theory Spec2Isabelle
  imports Main "HOL-Library.Sublist"
begin


section \<open>Resource catalog\<close>

text \<open>
  A path is the list of its components below the filesystem root, so that
  \<^verbatim>\<open>p / "a"\<close> appends a component and \<^verbatim>\<open>p.parent\<close> drops the last one
  (the root is its own parent). \<^verbatim>\<open>Server.__init__\<close> makes \<^verbatim>\<open>self.path\<close>
  absolute before anything else reads it.
\<close>

type_synonym path = "string list"

definition parent :: "path \<Rightarrow> path" where
  "parent p = butlast p"

datatype ResourceKind = checkpoint | controlnet | clip_vision | ip_adapter | node

record CustomNode =
  node_name :: string
  node_folder :: string
  node_url :: string
  nodes :: "string list"

record ModelResource =
  res_name :: string
  res_kind :: ResourceKind
  res_folder :: path
  res_filename :: string
  res_url :: string

definition required_custom_nodes :: "CustomNode list" where
  "required_custom_nodes =
    [ \<lparr> node_name = ''ControlNet Preprocessors'',
        node_folder = ''comfyui_controlnet_aux'',
        node_url = ''https://github.com/Fannovel16/comfyui_controlnet_aux'',
        nodes = [''InpaintPreprocessor''] \<rparr>,
      \<lparr> node_name = ''IP-Adapter'',
        node_folder = ''IPAdapter-ComfyUI'',
        node_url = ''https://github.com/laksjdjf/IPAdapter-ComfyUI'',
        nodes = [''IPAdapter''] \<rparr>,
      \<lparr> node_name = ''External Tooling Nodes'',
        node_folder = ''comfyui-tooling-nodes'',
        node_url = ''https://github.com/Acly/comfyui-tooling-nodes'',
        nodes = [''ETN_LoadImageBase64'', ''ETN_LoadMaskBase64'', ''ETN_SendImageWebSocket'',
                 ''ETN_CropImage'', ''ETN_ApplyMaskToImage''] \<rparr> ]"

definition required_models :: "ModelResource list" where
  "required_models =
    [ \<lparr> res_name = ''ControlNet Inpaint'',
        res_kind = controlnet,
        res_folder = [''models'', ''controlnet''],
        res_filename = ''control_v11p_sd15_inpaint.safetensors'',
        res_url = ''https://huggingface.co/comfyanonymous/ControlNet-v1-1_fp16_safetensors/resolve/main/control_v11p_sd15_inpaint_fp16.safetensors'' \<rparr>,
      \<lparr> res_name = ''CLIP Vision model'',
        res_kind = clip_vision,
        res_folder = [''models'', ''clip_vision'', ''SD1.5''],
        res_filename = ''pytorch_model.bin'',
        res_url = ''https://huggingface.co/h94/IP-Adapter/resolve/main/models/image_encoder/pytorch_model.bin'' \<rparr>,
      \<lparr> res_name = ''IP-Adapter model'',
        res_kind = ip_adapter,
        res_folder = [''custom_nodes'', ''IPAdapter-ComfyUI'', ''models''],
        res_filename = ''ip-adapter_sd15.bin'',
        res_url = ''https://huggingface.co/h94/IP-Adapter/resolve/main/models/ip-adapter_sd15.bin'' \<rparr> ]"

definition default_checkpoints :: "ModelResource list" where
  "default_checkpoints =
    [ \<lparr> res_name = ''Realistic Vision'',
        res_kind = checkpoint,
        res_folder = [''models'', ''checkpoints''],
        res_filename = ''realisticVisionV51_v51VAE.safetensors'',
        res_url = ''https://civitai.com/api/download/models/130072?type=Model&format=SafeTensor&size=pruned&fp=fp16'' \<rparr>,
      \<lparr> res_name = ''DreamShaper'',
        res_kind = checkpoint,
        res_folder = [''models'', ''checkpoints''],
        res_filename = ''dreamshaper_8.safetensors'',
        res_url = ''https://civitai.com/api/download/models/128713?type=Model&format=SafeTensor&size=pruned&fp=fp16'' \<rparr> ]"

definition all_resources :: "string list" where
  "all_resources =
     map node_name required_custom_nodes
     @ map res_name required_models
     @ map res_name default_checkpoints"

section \<open>Server state\<close>

datatype ServerState =
  not_installed | missing_resources | installing | stopped | starting | running

text \<open>
  Modelled from the spec: \<^verbatim>\<open>ServerBackend\<close> is imported from the settings module,
  which is not part of the sources at hand; the server uses its members \<^verbatim>\<open>cuda\<close> and
  \<^verbatim>\<open>cpu\<close> (the configured backend flavour, GPU or CPU).
\<close>

datatype ServerBackend = cuda | cpu

text \<open>
  The handle of a spawned process, as far as the server uses it: the lines its standard
  output still yields (in order, until the stream ends), what a bounded
  \<^verbatim>\<open>wait_for(communicate(), timeout=t)\<close> yields (the rest of standard output, standard
  error and the exit code when the process ends within \<open>t\<close>, nothing when the wait
  times out), and the \<^verbatim>\<open>returncode\<close> attribute as it stands (absent while the process
  has not been waited for).
\<close>

record Process =
  pid :: nat
  stdout_lines :: "string list"
  communicate :: "nat \<Rightarrow> (string \<times> string \<times> int) option"
  returncode :: "int option"

datatype Task = ForwardTask nat

record Server =
  path :: path
  url :: "string option"
  backend :: ServerBackend
  state :: ServerState
  missing_resources :: "string list"
  python_cmd :: "path option"
  pip_cmd :: "path option"
  comfy_dir :: "path option"
  cache_dir :: "path option"
  process :: "Process option"
  task :: "Task option"

text \<open>
  What the server reads from its host and never writes: the platform test
  \<^verbatim>\<open>"win" in sys.platform\<close> and \<^verbatim>\<open>shutil.which\<close>.
\<close>

record Host =
  is_windows :: bool
  which :: "string \<Rightarrow> path option"

definition exe :: "Host \<Rightarrow> string" where
  "exe h = (if is_windows h then ''.exe'' else '''')"

definition has_python :: "Server \<Rightarrow> bool" where
  "has_python s = (python_cmd s \<noteq> None \<and> pip_cmd s \<noteq> None)"

definition has_comfy :: "Server \<Rightarrow> bool" where
  "has_comfy s = (comfy_dir s \<noteq> None)"

section \<open>Probing the installation\<close>

text \<open>A filesystem snapshot is the set of the paths that exist.\<close>

fun find_component :: "path set \<Rightarrow> string list \<Rightarrow> path list \<Rightarrow> path option" where
  "find_component fs files [] = None"
| "find_component fs files (p # search_paths) =
     (if list_all (\<lambda>q. q \<in> fs) (p # map (\<lambda>file. p @ [file]) files) then Some p
      else find_component fs files search_paths)"

declare find_component.simps [simp del]

definition find_program :: "Host \<Rightarrow> string \<Rightarrow> path option" where
  "find_program h command = which h command"

definition comfy_pkg :: "string list" where
  "comfy_pkg = [''main.py'', ''nodes.py'', ''custom_nodes'']"

definition python_pkg :: "Host \<Rightarrow> string list" where
  "python_pkg h = (if is_windows h then [''python3.dll'', ''python.exe'']
                   else [''python'', ''python.so''])"

definition python_search_paths :: "Server \<Rightarrow> path list" where
  "python_search_paths s =
     [path s @ [''python'']] @
     (case comfy_dir s of
        None \<Rightarrow> []
      | Some d \<Rightarrow> [d @ [''python''], parent d @ [''python''], parent d @ [''python_embeded'']])"

definition node_dir :: "path \<Rightarrow> CustomNode \<Rightarrow> path" where
  "node_dir d package = d @ [''custom_nodes''] @ [node_folder package]"

definition model_file :: "path \<Rightarrow> ModelResource \<Rightarrow> path" where
  "model_file d r = d @ res_folder r @ [res_filename r]"

definition check_install :: "Host \<Rightarrow> path set \<Rightarrow> Server \<Rightarrow> Server" where
  "check_install h fs s0 =
    (let s1 = s0 \<lparr> missing_resources := [], cache_dir := Some (path s0 @ [''.cache'']) \<rparr>;
         s2 = s1 \<lparr> comfy_dir := find_component fs comfy_pkg [path s1, path s1 @ [''ComfyUI'']] \<rparr>;
         s3 = (case find_component fs (python_pkg h) (python_search_paths s2) of
                 None \<Rightarrow> s2 \<lparr> python_cmd := find_program h ''python'',
                              pip_cmd := find_program h ''pip'' \<rparr>
               | Some python_path \<Rightarrow>
                   s2 \<lparr> python_cmd := Some (python_path @ [''python'' @ exe h]),
                        pip_cmd := Some (python_path @ [''Scripts'', ''pip'' @ exe h]) \<rparr>)
     in if \<not> (has_comfy s3 \<and> has_python s3)
        then s3 \<lparr> state := ServerState.not_installed, missing_resources := all_resources \<rparr>
        else
          (let d = the (comfy_dir s3);
               missing_nodes = map node_name
                 (filter (\<lambda>package. node_dir d package \<notin> fs) required_custom_nodes);
               s4 = s3 \<lparr> missing_resources := missing_resources s3 @ missing_nodes \<rparr>;
               s5 = s4 \<lparr> missing_resources := missing_resources s4 @
                      map res_name (filter (\<lambda>r. model_file d r \<notin> fs) required_models) \<rparr>;
               s6 = (if length (missing_resources s5) > 0
                     then s5 \<lparr> state := ServerState.missing_resources \<rparr>
                     else s5 \<lparr> state := ServerState.stopped \<rparr>)
           in s6 \<lparr> missing_resources := missing_resources s6 @
                  map res_name (filter (\<lambda>r. model_file d r \<notin> fs) default_checkpoints) \<rparr>))"

section \<open>Effects: the world outside the server object\<close>

text \<open>
  Modelled from the spec: \<^verbatim>\<open>DownloadProgress\<close> comes from the network module, which is
  not part of the sources at hand; it is a download-progress measurement (bytes
  transferred and total).
\<close>

type_synonym DownloadProgress = "nat \<times> nat"

record InstallationProgress =
  stage :: string
  progress :: "DownloadProgress option"

datatype level = Info | Warning | Error | Exception

datatype error =
    AssertionError string
  | TypeError
  | AttributeError
  | TimeoutError
  | FileNotFoundError path
  | FileExistsError path
  | PythonNotFound
  | ProcessFailed string
  | ExtractedFolderMissing string path
  | StartupError string "int option"
  | External string

text \<open>
  Everything the server does to the outside is recorded, in order: log records, calls of
  the caller's progress callback, downloads, archive extractions, child processes and the
  signals sent to them, and the filesystem operations.
\<close>

datatype Event =
    Log level string
  | Notify InstallationProgress
  | Download string path
  | ExtractAll path path
  | Exec "string list" path
  | Spawn "path option" "string list" "path option"
  | Terminate nat
  | Kill nat
  | CreateTask Task
  | CancelTask Task
  | Mkdir path
  | Rmtree path
  | Rename path path
  | WriteFile path string

record World =
  disk :: "path set"
  trace :: "Event list"

text \<open>
  What the outside answers. Every answer may depend on the world as it stands when the
  question is asked, so a second attempt may fare differently from the first.

  Modelled from the spec: \<^verbatim>\<open>network.download(network, url, target)\<close> is not part of the
  sources at hand. It yields progress events and writes the bytes directly to the target;
  here it answers with the progress events it yields, the error it ends with (if any), and
  whether the target file is on disk after a transfer that failed or was abandoned.
\<close>

record DownloadResult =
  dl_progress :: "DownloadProgress list"
  dl_error :: "error option"
  dl_leaves_file :: bool

text \<open>
  \<^verbatim>\<open>ZipFile(archive).extractall(target)\<close>: the paths it creates below the target (the empty
  path stands for the target directory itself) and the error it ends with, if any.
\<close>

record ExtractResult =
  members :: "path list"
  ex_error :: "error option"

text \<open>
  A child process run by \<^verbatim>\<open>_execute_process\<close>: whether spawning it fails, the lines of its
  standard output, its \<^verbatim>\<open>returncode\<close> attribute when the output ends, its standard error,
  and the paths it creates.
\<close>

record ExecResult =
  spawn_error :: "error option"
  out_lines :: "string list"
  exit_code :: "int option"
  err_text :: string
  creates :: "path list"

type_synonym Callback = "World \<Rightarrow> InstallationProgress \<Rightarrow> error option"

record Outside =
  host :: Host
  download :: "World \<Rightarrow> string \<Rightarrow> path \<Rightarrow> DownloadResult"
  extractall :: "World \<Rightarrow> path \<Rightarrow> path \<Rightarrow> ExtractResult"
  run_process :: "World \<Rightarrow> string list \<Rightarrow> path \<Rightarrow> ExecResult"
  create_subprocess_exec ::
    "World \<Rightarrow> path option \<Rightarrow> string list \<Rightarrow> path option \<Rightarrow> error + Process"

section \<open>Actions: state passing with errors as values\<close>

type_synonym 'a action = "Server \<times> World \<Rightarrow> (error + 'a) \<times> Server \<times> World"

definition return :: "'a \<Rightarrow> 'a action" where
  "return x = (\<lambda>\<sigma>. (Inr x, \<sigma>))"

definition raise :: "error \<Rightarrow> 'a action" where
  "raise e = (\<lambda>\<sigma>. (Inl e, \<sigma>))"

definition bnd :: "'a action \<Rightarrow> ('a \<Rightarrow> 'b action) \<Rightarrow> 'b action" where
  "bnd m k = (\<lambda>\<sigma>. case m \<sigma> of (Inl e, \<sigma>') \<Rightarrow> (Inl e, \<sigma>') | (Inr x, \<sigma>') \<Rightarrow> k x \<sigma>')"

definition thn :: "'a action \<Rightarrow> 'b action \<Rightarrow> 'b action" where
  "thn m k = bnd m (\<lambda>_. k)"

definition when_true :: "bool \<Rightarrow> unit action \<Rightarrow> unit action" where
  "when_true c m = (if c then m else return ())"

definition get_server :: "Server action" where
  "get_server = (\<lambda>\<sigma>. (Inr (fst \<sigma>), \<sigma>))"

definition get_world :: "World action" where
  "get_world = (\<lambda>\<sigma>. (Inr (snd \<sigma>), \<sigma>))"

definition modify_server :: "(Server \<Rightarrow> Server) \<Rightarrow> unit action" where
  "modify_server f = (\<lambda>\<sigma>. (Inr (), (f (fst \<sigma>), snd \<sigma>)))"

definition modify_fs :: "(path set \<Rightarrow> path set) \<Rightarrow> unit action" where
  "modify_fs f = (\<lambda>\<sigma>. (Inr (), (fst \<sigma>, (snd \<sigma>) \<lparr> disk := f (disk (snd \<sigma>)) \<rparr>)))"

definition emit :: "Event \<Rightarrow> unit action" where
  "emit ev = (\<lambda>\<sigma>. (Inr (), (fst \<sigma>, (snd \<sigma>) \<lparr> trace := trace (snd \<sigma>) @ [ev] \<rparr>)))"

definition require :: "'a option \<Rightarrow> 'a action" where
  "require v = (case v of None \<Rightarrow> raise TypeError | Some x \<Rightarrow> return x)"

fun for_each :: "('a \<Rightarrow> unit action) \<Rightarrow> 'a list \<Rightarrow> unit action" where
  "for_each body [] = return ()"
| "for_each body (x # xs) = thn (body x) (for_each body xs)"

text \<open>\<^verbatim>\<open>try: m except Exception as e: handler(e)\<close>\<close>

definition try_except :: "'a action \<Rightarrow> (error \<Rightarrow> 'a action) \<Rightarrow> 'a action" where
  "try_except m handler =
     (\<lambda>\<sigma>. case m \<sigma> of (Inl e, \<sigma>') \<Rightarrow> handler e \<sigma>' | (Inr x, \<sigma>') \<Rightarrow> (Inr x, \<sigma>'))"

text \<open>\<^verbatim>\<open>try: m except asyncio.TimeoutError: handler\<close>: every other error passes through.\<close>

definition except_timeout :: "'a action \<Rightarrow> 'a action \<Rightarrow> 'a action" where
  "except_timeout m handler =
     (\<lambda>\<sigma>. case m \<sigma> of
            (Inl e, \<sigma>') \<Rightarrow> (if e = TimeoutError then handler \<sigma>' else (Inl e, \<sigma>'))
          | (Inr x, \<sigma>') \<Rightarrow> (Inr x, \<sigma>'))"

text \<open>
  \<^verbatim>\<open>try: m finally: cleanup\<close>: the cleanup runs on both exits; its own error, if it has
  one, replaces the outcome of the body.
\<close>

definition try_finally :: "'a action \<Rightarrow> unit action \<Rightarrow> 'a action" where
  "try_finally m cleanup =
     (\<lambda>\<sigma>. case m \<sigma> of
            (r, \<sigma>') \<Rightarrow> (case cleanup \<sigma>' of
                          (Inl e, \<sigma>'') \<Rightarrow> (Inl e, \<sigma>'')
                        | (Inr _, \<sigma>'') \<Rightarrow> (r, \<sigma>'')))"

section \<open>Strings\<close>

text \<open>
  Text is modelled as a list of characters (bytes); the output of child processes is taken
  to be decodable, so that \<^verbatim>\<open>line.decode()\<close> is the identity. \<^verbatim>\<open>str.strip()\<close> removes the
  white space of the ASCII range at both ends.
\<close>

definition is_space :: "char \<Rightarrow> bool" where
  "is_space c = (c \<in> set [CHR '' '', CHR 0x09, CHR 0x0A, CHR 0x0B, CHR 0x0C, CHR 0x0D,
                             CHR 0x1C, CHR 0x1D, CHR 0x1E, CHR 0x1F])"

definition strip :: "string \<Rightarrow> string" where
  "strip t = rev (dropWhile is_space (rev (dropWhile is_space t)))"

definition startswith :: "string \<Rightarrow> string \<Rightarrow> bool" where
  "startswith t pre = prefix pre t"

text \<open>
  \<^verbatim>\<open>str.split(sep)\<close> for a separator that is not empty: the pieces between the
  occurrences of the separator, found from the left. \<open>split_from sep cur t\<close> has read
  \<open>cur\<close> of the current piece and still has \<open>t\<close> to read.
\<close>

function split_from :: "string \<Rightarrow> string \<Rightarrow> string \<Rightarrow> string list" where
  "split_from sep cur t =
     (if t = [] then [cur]
      else if sep \<noteq> [] \<and> prefix sep t then cur # split_from sep [] (drop (length sep) t)
      else split_from sep (cur @ [hd t]) (tl t))"
  by pat_completeness auto
termination
  by (relation "measure (\<lambda>(sep, cur, t). length t)") auto

definition split :: "string \<Rightarrow> string \<Rightarrow> string list" where
  "split t sep = split_from sep [] t"

definition join :: "string \<Rightarrow> string list \<Rightarrow> string" where
  "join sep xs = (case xs of [] \<Rightarrow> [] | x # ys \<Rightarrow> x @ concat (map (\<lambda>y. sep @ y) ys))"

function str_nat :: "nat \<Rightarrow> string" where
  "str_nat n = (if n < 10 then [char_of (48 + n)] else str_nat (n div 10) @ [char_of (48 + n mod 10)])"
  by pat_completeness auto
termination
  by (relation "measure id") auto

definition str_int :: "int \<Rightarrow> string" where
  "str_int i = (if i < 0 then ''-'' @ str_nat (nat (- i)) else str_nat (nat i))"

definition str_returncode :: "int option \<Rightarrow> string" where
  "str_returncode r = (case r of None \<Rightarrow> ''None'' | Some i \<Rightarrow> str_int i)"

text \<open>\<^verbatim>\<open>str(path)\<close>, in the POSIX rendering; it only ever reaches messages and command lines.\<close>

definition str_path :: "path \<Rightarrow> string" where
  "str_path p = (if p = [] then ''/'' else concat (map (\<lambda>c. ''/'' @ c) p))"

definition str_cmd :: "path option \<Rightarrow> string" where
  "str_cmd c = (case c of None \<Rightarrow> ''None'' | Some p \<Rightarrow> str_path p)"

definition str_error :: "error \<Rightarrow> string" where
  "str_error e =
     (case e of
        AssertionError m \<Rightarrow> m
      | TypeError \<Rightarrow> ''TypeError''
      | AttributeError \<Rightarrow> ''AttributeError''
      | TimeoutError \<Rightarrow> ''''
      | FileNotFoundError p \<Rightarrow> ''No such file or directory: '' @ str_path p
      | FileExistsError p \<Rightarrow> ''File exists: '' @ str_path p
      | PythonNotFound \<Rightarrow>
          ''Python not found. Please install Python via your package manager and restart.''
      | ProcessFailed err \<Rightarrow> ''Error during PyTorch installation: '' @ err
      | ExtractedFolderMissing name p \<Rightarrow>
          ''Error during '' @ name @ '' installation: folder '' @ str_path p @ '' does not exist''
      | StartupError err ret \<Rightarrow>
          ''Error during server startup: '' @ err @ '' ['' @ str_returncode ret @ '']''
      | External m \<Rightarrow> m)"

section \<open>Filesystem operations\<close>

text \<open>
  A snapshot records which paths exist, not what they hold and not whether they are files
  or directories. \<^verbatim>\<open>mkdir(parents=True, exist_ok=True)\<close> creates the path and what leads
  to it; \<^verbatim>\<open>shutil.rmtree(path, ignore_errors=True)\<close> removes the path and everything below
  it; a rename moves the path and everything below it, and is taken to fail when the
  destination exists.
\<close>

definition exists_on_disk :: "path \<Rightarrow> bool action" where
  "exists_on_disk p = (\<lambda>\<sigma>. (Inr (p \<in> disk (snd \<sigma>)), \<sigma>))"

definition mkdir :: "path \<Rightarrow> unit action" where
  "mkdir p = thn (emit (Mkdir p)) (modify_fs (\<lambda>ps. ps \<union> set (prefixes p)))"

definition rmtree :: "path \<Rightarrow> unit action" where
  "rmtree p = thn (emit (Rmtree p)) (modify_fs (\<lambda>ps. Set.filter (\<lambda>q. \<not> prefix p q) ps))"

definition rename :: "path \<Rightarrow> path \<Rightarrow> unit action" where
  "rename src dst =
     bnd (exists_on_disk dst) (\<lambda>there.
       if there then raise (FileExistsError dst)
       else thn (emit (Rename src dst))
                (modify_fs (\<lambda>ps. (\<lambda>q. if prefix src q then dst @ drop (length src) q else q) ` ps)))"

text \<open>\<^verbatim>\<open>with open(path, "a") as file: file.write(line)\<close>\<close>

definition append_file :: "path \<Rightarrow> string \<Rightarrow> unit action" where
  "append_file p line =
     bnd (exists_on_disk (parent p)) (\<lambda>there.
       if \<not> there then raise (FileNotFoundError p)
       else thn (emit (WriteFile p line)) (modify_fs (\<lambda>ps. insert p ps)))"

definition prepend_file :: "path \<Rightarrow> string \<Rightarrow> unit action" where
  "prepend_file p line =
     bnd (exists_on_disk p) (\<lambda>there.
       if \<not> there then raise (FileNotFoundError p)
       else emit (WriteFile p line))"

definition name_of :: "path \<Rightarrow> string" where
  "name_of p = (if p = [] then [] else last p)"

definition rename_extracted_folder :: "string \<Rightarrow> path \<Rightarrow> string \<Rightarrow> unit action" where
  "rename_extracted_folder name p sfx =
     (let extracted_folder = parent p @ [name_of p @ sfx] in
      bnd (exists_on_disk extracted_folder) (\<lambda>there.
        if \<not> there then raise (ExtractedFolderMissing name extracted_folder)
        else rename extracted_folder p))"

section \<open>The installer\<close>

definition log :: "level \<Rightarrow> string \<Rightarrow> unit action" where
  "log l message = emit (Log l message)"

text \<open>
  The inner function \<^verbatim>\<open>cb\<close> of \<^verbatim>\<open>install\<close> and \<^verbatim>\<open>install_optional\<close>: it logs the message
  when there is one and calls the caller's callback, which may raise.
\<close>

definition cb :: "Callback \<Rightarrow> string \<Rightarrow> string option \<Rightarrow> DownloadProgress option \<Rightarrow> unit action" where
  "cb callback stg message prog =
     thn (when_true (message \<noteq> None \<and> message \<noteq> Some []) (log Info (the message)))
    (thn (emit (Notify \<lparr> stage = stg, progress = prog \<rparr>))
    (bnd get_world (\<lambda>w.
       case callback w \<lparr> stage = stg, progress = prog \<rparr> of
         None \<Rightarrow> return ()
       | Some e \<Rightarrow> raise e)))"

text \<open>
  \<^verbatim>\<open>_download_cached\<close>. The transfer is abandoned when the callback raises on a progress
  event.
\<close>

definition download_cached ::
  "Outside \<Rightarrow> Callback \<Rightarrow> string \<Rightarrow> string \<Rightarrow> path \<Rightarrow> unit action" where
  "download_cached out callback name link archive =
     bnd (exists_on_disk archive) (\<lambda>there.
       when_true (\<not> there)
        (thn (cb callback (''Downloading '' @ name)
                (Some (''Downloading '' @ link @ '' to '' @ str_path archive)) None)
        (bnd get_world (\<lambda>w.
           let r = download out w link archive in
           thn (emit (Download link archive))
           (try_except
              (thn (for_each (\<lambda>p. cb callback (''Downloading '' @ name) None (Some p))
                       (dl_progress r))
              (thn (case dl_error r of None \<Rightarrow> return () | Some e \<Rightarrow> raise e)
                   (modify_fs (insert archive))))
              (\<lambda>e. thn (when_true (dl_leaves_file r) (modify_fs (insert archive)))
                        (raise e)))))))"

definition extract_archive ::
  "Outside \<Rightarrow> Callback \<Rightarrow> string \<Rightarrow> path \<Rightarrow> path \<Rightarrow> unit action" where
  "extract_archive out callback name archive target =
     thn (cb callback (''Installing '' @ name)
            (Some (''Extracting '' @ str_path archive @ '' to '' @ str_path target)) None)
    (bnd get_world (\<lambda>w.
       let r = extractall out w archive target in
       thn (emit (ExtractAll archive target))
      (thn (modify_fs (\<lambda>ps. ps \<union> set (map (\<lambda>m. target @ m) (members r))))
           (case ex_error r of None \<Rightarrow> return () | Some e \<Rightarrow> raise e))))"

definition execute_process ::
  "Outside \<Rightarrow> Callback \<Rightarrow> string \<Rightarrow> string list \<Rightarrow> path \<Rightarrow> unit action" where
  "execute_process out callback name cmd cwd =
     thn (cb callback (''Installing '' @ name) (Some (''Executing '' @ join '' '' cmd)) None)
    (bnd get_world (\<lambda>w.
       let r = run_process out w cmd cwd in
       case spawn_error r of
         Some e \<Rightarrow> raise e
       | None \<Rightarrow>
           thn (emit (Exec cmd cwd))
          (thn (modify_fs (\<lambda>ps. ps \<union> set (creates r)))
          (thn (for_each (\<lambda>line. cb callback (''Installing '' @ name) (Some (strip line)) None)
                  (out_lines r))
               (when_true (exit_code r \<noteq> Some 0) (raise (ProcessFailed (err_text r))))))))"

definition install_if_missing :: "path \<Rightarrow> unit action \<Rightarrow> unit action" where
  "install_if_missing p installer =
     bnd (exists_on_disk p) (\<lambda>there.
       when_true (\<not> there)
         (try_except installer (\<lambda>e. thn (rmtree p) (raise e))))"

definition torch_index :: "ServerBackend \<Rightarrow> string" where
  "torch_index b = (case b of cuda \<Rightarrow> ''https://download.pytorch.org/whl/cu118''
                            | cpu \<Rightarrow> ''https://download.pytorch.org/whl/cpu'')"

definition install_python :: "Outside \<Rightarrow> Callback \<Rightarrow> unit action" where
  "install_python out callback =
     bnd get_server (\<lambda>s.
     bnd (require (cache_dir s)) (\<lambda>cache.
       let link = ''https://www.python.org/ftp/python/3.10.9/python-3.10.9-embed-amd64.zip'';
           archive_path = cache @ [''python-3.10.9-embed-amd64.zip''];
           dir = path s @ [''python''];
           python_pth = dir @ [''python310._pth''];
           git_pip_url = ''https://bootstrap.pypa.io/get-pip.py'';
           get_pip_file = dir @ [''get-pip.py''];
           torch_args = [''install'', ''torch'', ''torchvision'', ''torchaudio'', ''--index-url''];
           torch_cmd = [str_cmd (pip_cmd s)] @ torch_args @ [torch_index (backend s)]
       in
       thn (download_cached out callback ''Python'' link archive_path)
      (thn (extract_archive out callback ''Python'' archive_path dir)
      (thn (cb callback ''Installing Python'' (Some (''Patching '' @ str_path python_pth)) None)
      (thn (append_file python_pth (''import site'' @ [CHR 0x0A]))
      (thn (download_cached out callback ''Python'' git_pip_url get_pip_file)
      (thn (execute_process out callback ''Python''
              [str_cmd (python_cmd s), str_path get_pip_file] dir)
      (thn (execute_process out callback ''PyTorch'' torch_cmd dir)
      (thn (cb callback ''Installing Python'' (Some (''Patching '' @ str_path python_pth)) None)
      (thn (prepend_file python_pth (''../ComfyUI'' @ [CHR 0x0A]))
           (cb callback ''Installing Python'' (Some ''Finished installing Python'') None)))))))))))"

definition install_comfy :: "Outside \<Rightarrow> Callback \<Rightarrow> unit action" where
  "install_comfy out callback =
     bnd get_server (\<lambda>s.
     bnd (require (cache_dir s)) (\<lambda>cache.
       let link = ''https://github.com/comfyanonymous/ComfyUI/archive/refs/heads/master.zip'';
           archive_path = cache @ [''ComfyUI.zip'']
       in
       thn (download_cached out callback ''ComfyUI'' link archive_path)
      (bnd (require (comfy_dir s)) (\<lambda>comfy.
       thn (extract_archive out callback ''ComfyUI'' archive_path (parent comfy))
      (thn (rename_extracted_folder ''ComfyUI'' comfy ''-master'')
      (let requirements_txt = comfy @ [''requirements.txt''];
           requirements_cmd = [str_cmd (pip_cmd s), ''install'', ''-r'', str_path requirements_txt]
       in
       thn (execute_process out callback ''ComfyUI'' requirements_cmd comfy)
           (cb callback ''Installing ComfyUI'' (Some ''Finished installing ComfyUI'') None)))))))"

definition install_custom_node :: "Outside \<Rightarrow> Callback \<Rightarrow> CustomNode \<Rightarrow> unit action" where
  "install_custom_node out callback pkg =
     bnd get_server (\<lambda>s.
     bnd (require (comfy_dir s)) (\<lambda>comfy.
       let folder = comfy @ [''custom_nodes''] @ [node_folder pkg];
           resource_url = node_url pkg @ ''/archive/refs/heads/main.zip''
       in
       bnd (require (cache_dir s)) (\<lambda>cache.
       let resource_zip_path = cache @ [node_folder pkg @ ''.zip''] in
       thn (download_cached out callback (node_name pkg) resource_url resource_zip_path)
      (thn (extract_archive out callback (node_name pkg) resource_zip_path (parent folder))
      (thn (rename_extracted_folder (node_name pkg) folder ''-main'')
      (let requirements_txt = folder @ [''requirements.txt''];
           requirements_cmd = [str_cmd (pip_cmd s), ''install'', ''-r'', str_path requirements_txt]
       in
       thn (bnd (exists_on_disk requirements_txt) (\<lambda>there.
              when_true there (execute_process out callback (node_name pkg) requirements_cmd folder)))
           (cb callback (''Installing '' @ node_name pkg)
              (Some (''Finished installing '' @ node_name pkg)) None)))))))"

definition do_check_install :: "Outside \<Rightarrow> unit action" where
  "do_check_install out = (\<lambda>\<sigma>. (Inr (), (check_install (host out) (disk (snd \<sigma>)) (fst \<sigma>), snd \<sigma>)))"

text \<open>\<^verbatim>\<open>Server._install\<close>\<close>

definition install_inner :: "Outside \<Rightarrow> Callback \<Rightarrow> unit action" where
  "install_inner out callback =
     thn (modify_server (\<lambda>s. s \<lparr> state := ServerState.installing \<rparr>))
    (bnd get_server (\<lambda>s.
     thn (cb callback ''Installing'' (Some (''Installation started in '' @ str_path (path s))) None)
    (thn (modify_server (\<lambda>s. s \<lparr> cache_dir := Some (path s @ [''.cache'']) \<rparr>))
    (thn (mkdir (path s @ [''.cache'']))
    (let no_python = (python_cmd s = None \<or> pip_cmd s = None) in
     thn (when_true (is_windows (host out) \<and> (comfy_dir s = None \<or> no_python))
            (let python_dir = path s @ [''python''] in
             thn (modify_server (\<lambda>s. s \<lparr>
                     python_cmd := Some (python_dir @ [''python'' @ exe (host out)]),
                     pip_cmd := Some (python_dir @ [''Scripts'', ''pip'' @ exe (host out)]) \<rparr>))
                 (install_if_missing python_dir (install_python out callback))))
    (let comfy = (case comfy_dir s of None \<Rightarrow> path s @ [''ComfyUI''] | Some d \<Rightarrow> d) in
     thn (modify_server (\<lambda>s. s \<lparr> comfy_dir := Some comfy \<rparr>))
    (thn (install_if_missing comfy (install_comfy out callback))
    (thn (for_each (\<lambda>pkg.
             let dir = comfy @ [''custom_nodes''] @ [node_folder pkg] in
             install_if_missing dir (install_custom_node out callback pkg))
           required_custom_nodes)
    (thn (for_each (\<lambda>resource.
             let target_folder = comfy @ res_folder resource;
                 target_file = comfy @ res_folder resource @ [res_filename resource]
             in bnd (exists_on_disk target_file) (\<lambda>there.
                  when_true (\<not> there)
                    (thn (mkdir target_folder)
                         (download_cached out callback (res_name resource) (res_url resource)
                            target_file))))
           required_models)
    (thn (modify_server (\<lambda>s. s \<lparr> state := ServerState.stopped \<rparr>))
    (thn (cb callback ''Finished'' (Some (''Installation finished in '' @ str_path (path s))) None)
         (do_check_install out))))))))))))"

definition install :: "Outside \<Rightarrow> Callback \<Rightarrow> unit action" where
  "install out callback =
     bnd get_server (\<lambda>s.
       if state s \<notin> {ServerState.not_installed, ServerState.missing_resources}
       then raise (AssertionError [])
       else if \<not> is_windows (host out) \<and> (python_cmd s = None \<or> pip_cmd s = None)
       then raise PythonNotFound
       else try_except (install_inner out callback)
              (\<lambda>e. thn (log Exception (str_error e))
                   (thn (log Error ''Installation failed'')
                   (thn (modify_server (\<lambda>s. s \<lparr> state := ServerState.stopped \<rparr>))
                   (thn (do_check_install out)
                        (raise e))))))"

definition install_optional :: "Outside \<Rightarrow> string list \<Rightarrow> Callback \<Rightarrow> unit action" where
  "install_optional out packages callback =
     bnd get_server (\<lambda>s.
       if \<not> has_comfy s
       then raise (AssertionError ''Must install ComfyUI before downloading checkpoints'')
       else
         (let prev_state = state s in
          thn (modify_server (\<lambda>s. s \<lparr> state := ServerState.installing \<rparr>))
              (try_finally
                (try_except
                  (for_each (\<lambda>resource.
                      bnd get_server (\<lambda>s.
                      bnd (require (comfy_dir s)) (\<lambda>comfy.
                        let target_file = comfy @ res_folder resource @ [res_filename resource] in
                        bnd (exists_on_disk target_file) (\<lambda>there.
                          when_true (\<not> there)
                            (download_cached out callback (res_name resource)
                               (res_url resource) target_file)))))
                    (filter (\<lambda>cp. res_name cp \<in> set packages) default_checkpoints))
                  (\<lambda>e. thn (log Exception (str_error e)) (raise e)))
                (thn (modify_server (\<lambda>s. s \<lparr> state := prev_state \<rparr>))
                     (do_check_install out)))))"

section \<open>Running the server process\<close>

text \<open>
  The signals \<^verbatim>\<open>terminate()\<close> and \<^verbatim>\<open>kill()\<close> and the cancellation of the forwarding task
  are taken to be delivered without an error of their own; what can go wrong is that a
  handle is absent, that the process cannot be spawned, and that a bounded wait times out.
  The forwarding task \<^verbatim>\<open>run()\<close> runs beside the caller and only copies output to the log;
  it is represented by its handle, and by the events that create and cancel it.
  Cancellation of the calling task itself is not modelled.
\<close>

definition ready_marker :: string where
  "ready_marker = ''To see the GUI go to:''"

definition the_process :: "Process action" where
  "the_process = bnd get_server (\<lambda>s.
     case process s of None \<Rightarrow> raise AttributeError | Some p \<Rightarrow> return p)"

definition the_task :: "Task action" where
  "the_task = bnd get_server (\<lambda>s.
     case task s of None \<Rightarrow> raise AttributeError | Some t \<Rightarrow> return t)"

text \<open>
  \<^verbatim>\<open>await asyncio.wait_for(self._process.communicate(), timeout=t)\<close>: the rest of the
  output, or \<^verbatim>\<open>TimeoutError\<close>. A process that has been waited for has its exit code.
\<close>

definition wait_for_communicate :: "nat \<Rightarrow> (string \<times> string) action" where
  "wait_for_communicate t =
     bnd the_process (\<lambda>p.
       case communicate p t of
         None \<Rightarrow> raise TimeoutError
       | Some (out_text, err, code) \<Rightarrow>
           thn (modify_server (\<lambda>s. s \<lparr> process :=
                  Some (p \<lparr> stdout_lines := [], returncode := Some code \<rparr>) \<rparr>))
               (return (out_text, err)))"

text \<open>
  The loop \<^verbatim>\<open>async for line in self._process.stdout\<close> of \<^verbatim>\<open>start\<close>, over the lines the
  stream still holds: it stops at the first line that starts with the marker.
\<close>

fun read_startup :: "string list \<Rightarrow> unit action" where
  "read_startup [] = return ()"
| "read_startup (line # rest) =
     thn (modify_server (\<lambda>s. s \<lparr> process :=
            map_option (\<lambda>p. p \<lparr> stdout_lines := rest \<rparr>) (process s) \<rparr>))
    (let t = strip line in
     thn (log Info t)
         (if startswith t ready_marker
          then modify_server (\<lambda>s. s \<lparr> state := ServerState.running,
                                       url := Some (last (split t ''http://'')) \<rparr>)
          else read_startup rest))"

definition start :: "Outside \<Rightarrow> string option action" where
  "start out =
     bnd get_server (\<lambda>s.
       if state s \<notin> {ServerState.stopped, ServerState.missing_resources}
       then raise (AssertionError [])
       else
         thn (modify_server (\<lambda>s. s \<lparr> state := ServerState.starting \<rparr>))
        (let args = [''-u'', ''main.py''] @ (if backend s = cpu then [''--cpu''] else []) in
         bnd get_world (\<lambda>w.
         bnd (case create_subprocess_exec out w (python_cmd s) args (comfy_dir s) of
                Inl e \<Rightarrow> raise e
              | Inr p \<Rightarrow> thn (emit (Spawn (python_cmd s) args (comfy_dir s))) (return p)) (\<lambda>p.
         thn (modify_server (\<lambda>s. s \<lparr> process := Some p \<rparr>))
        (thn (read_startup (stdout_lines p))
        (bnd get_server (\<lambda>s.
           if state s \<noteq> ServerState.running
           then
             bnd (except_timeout
                    (bnd (wait_for_communicate 10) (\<lambda>(out_text, err).
                       thn (log Info (strip out_text))
                      (thn (log Error err)
                           (return err))))
                    (bnd the_process (\<lambda>p.
                       thn (emit (Kill (pid p)))
                           (return ''Process exited unexpectedly'')))) (\<lambda>err.
             thn (modify_server (\<lambda>s. s \<lparr> state := ServerState.stopped \<rparr>))
            (bnd the_process (\<lambda>p.
               let ret = returncode p in
               thn (modify_server (\<lambda>s. s \<lparr> process := None \<rparr>))
                   (raise (StartupError err ret)))))
           else
             thn (emit (CreateTask (ForwardTask (pid p))))
            (thn (modify_server (\<lambda>s. s \<lparr> task := Some (ForwardTask (pid p)) \<rparr>))
            (bnd get_server (\<lambda>s. return (url s)))))))))))"

definition stop :: "unit action" where
  "stop =
     bnd get_server (\<lambda>s.
       if state s \<noteq> ServerState.running
       then raise (AssertionError [])
       else
         try_finally
           (except_timeout
              (thn (log Info ''Stopping server'')
              (bnd the_process (\<lambda>p.
               thn (emit (Terminate (pid p)))
              (bnd the_task (\<lambda>t.
               thn (emit (CancelTask t))
              (thn (wait_for_communicate 5)
              (bnd the_process (\<lambda>p.
                 log Info (''Server terminated with code '' @ str_returncode (returncode p))))))))))
              (log Warning ''Server did not terminate in time''))
           (modify_server (\<lambda>s. s \<lparr> state := ServerState.stopped, process := None, task := None \<rparr>)))"

definition terminate :: "unit action" where
  "terminate =
     bnd get_server (\<lambda>s.
       case process s of
         None \<Rightarrow> return ()
       | Some p \<Rightarrow> emit (Terminate (pid p)))"

section \<open>Constructing the server\<close>


section \<open>The operations a caller can invoke\<close>

datatype Operation =
    CheckInstall
  | Install Callback
  | InstallOptional "string list" Callback
  | Start
  | Stop
  | TerminateNow

definition perform :: "Outside \<Rightarrow> Operation \<Rightarrow> Server \<times> World \<Rightarrow> Server \<times> World" where
  "perform out op \<sigma> =
     (case op of
        CheckInstall \<Rightarrow> snd (do_check_install out \<sigma>)
      | Install callback \<Rightarrow> snd (install out callback \<sigma>)
      | InstallOptional packages callback \<Rightarrow> snd (install_optional out packages callback \<sigma>)
      | Start \<Rightarrow> snd (start out \<sigma>)
      | Stop \<Rightarrow> snd (stop \<sigma>)
      | TerminateNow \<Rightarrow> snd (terminate \<sigma>))"

fun perform_all :: "Outside \<Rightarrow> Operation list \<Rightarrow> Server \<times> World \<Rightarrow> Server \<times> World" where
  "perform_all out [] \<sigma> = \<sigma>"
| "perform_all out (op # ops) \<sigma> = perform_all out ops (perform out op \<sigma>)"

section \<open>Vocabulary of the proofs\<close>

subsection \<open>Parts of the operations\<close>

text \<open>
  Pieces of the operations above that the proofs speak about on their own: the two halves
  of \<open>check_install\<close> (locating the backend root and the interpreter, then classifying
  the installation from what was located), the arguments \<open>start\<close> passes to the server, what
  it logs while it reads, what \<open>stop\<close> leaves in the trace, the transfer inside
  \<open>download_cached\<close>, and the loop of \<open>install_optional\<close> with its body.
\<close>

definition locate :: "Host \<Rightarrow> path set \<Rightarrow> Server \<Rightarrow> Server" where
  "locate h fs s0 =
    (let s1 = s0 \<lparr> missing_resources := [], cache_dir := Some (path s0 @ [''.cache'']) \<rparr>;
         s2 = s1 \<lparr> comfy_dir := find_component fs comfy_pkg [path s1, path s1 @ [''ComfyUI'']] \<rparr>
     in (case find_component fs (python_pkg h) (python_search_paths s2) of
                 None \<Rightarrow> s2 \<lparr> python_cmd := find_program h ''python'',
                              pip_cmd := find_program h ''pip'' \<rparr>
               | Some python_path \<Rightarrow>
                   s2 \<lparr> python_cmd := Some (python_path @ [''python'' @ exe h]),
                        pip_cmd := Some (python_path @ [''Scripts'', ''pip'' @ exe h]) \<rparr>))"

definition classify :: "path set \<Rightarrow> Server \<Rightarrow> Server" where
  "classify fs s3 =
     (if \<not> (has_comfy s3 \<and> has_python s3)
        then s3 \<lparr> state := ServerState.not_installed, missing_resources := all_resources \<rparr>
        else
          (let d = the (comfy_dir s3);
               missing_nodes = map node_name
                 (filter (\<lambda>package. node_dir d package \<notin> fs) required_custom_nodes);
               s4 = s3 \<lparr> missing_resources := missing_resources s3 @ missing_nodes \<rparr>;
               s5 = s4 \<lparr> missing_resources := missing_resources s4 @
                      map res_name (filter (\<lambda>r. model_file d r \<notin> fs) required_models) \<rparr>;
               s6 = (if length (missing_resources s5) > 0
                     then s5 \<lparr> state := ServerState.missing_resources \<rparr>
                     else s5 \<lparr> state := ServerState.stopped \<rparr>)
           in s6 \<lparr> missing_resources := missing_resources s6 @
                  map res_name (filter (\<lambda>r. model_file d r \<notin> fs) default_checkpoints) \<rparr>))"



definition stop_events :: "Process \<Rightarrow> Task \<Rightarrow> Event list" where
  "stop_events p t =
     [Log Info ''Stopping server'', Terminate (pid p), CancelTask t,
      (case communicate p 5 of
         None \<Rightarrow> Log Warning ''Server did not terminate in time''
       | Some (out_text, err, code) \<Rightarrow> Log Info (''Server terminated with code '' @ str_int code))]"

definition transfer :: "Callback \<Rightarrow> string \<Rightarrow> path \<Rightarrow> DownloadResult \<Rightarrow> unit action" where
  "transfer callback name archive r =
     try_except
       (thn (for_each (\<lambda>p. cb callback (''Downloading '' @ name) None (Some p)) (dl_progress r))
       (thn (case dl_error r of None \<Rightarrow> return () | Some e \<Rightarrow> raise e)
            (modify_fs (insert archive))))
       (\<lambda>e. thn (when_true (dl_leaves_file r) (modify_fs (insert archive))) (raise e))"

definition fetch_optional :: "Outside \<Rightarrow> Callback \<Rightarrow> ModelResource \<Rightarrow> unit action" where
  "fetch_optional out callback resource =
     bnd get_server (\<lambda>s.
     bnd (require (comfy_dir s)) (\<lambda>comfy.
       let target_file = comfy @ res_folder resource @ [res_filename resource] in
       bnd (exists_on_disk target_file) (\<lambda>there.
         when_true (\<not> there)
           (download_cached out callback (res_name resource) (res_url resource) target_file))))"

definition optional_loop :: "Outside \<Rightarrow> string list \<Rightarrow> Callback \<Rightarrow> unit action" where
  "optional_loop out packages callback =
     try_except
       (for_each (fetch_optional out callback)
          (filter (\<lambda>cp. res_name cp \<in> set packages) default_checkpoints))
       (\<lambda>e. thn (log Exception (str_error e)) (raise e))"

subsection \<open>Observations on states, disks and traces\<close>

text \<open>
  Whether the probe finds a backend root and an interpreter; the paths a search looks at;
  the files of the optional checkpoints; the targets of the steps of an installation; the
  downloads \<open>install_optional\<close> may start; the events that are work (downloads, extractions,
  child processes); a server whose state \<open>running\<close> comes with both handles; a state whose
  server is the result of a probe of its disk.
\<close>

definition backend_root_found :: "path set \<Rightarrow> Server \<Rightarrow> bool" where
  "backend_root_found fs s =
     (find_component fs comfy_pkg [path s, path s @ [''ComfyUI'']] \<noteq> None)"

definition interpreter_found :: "Host \<Rightarrow> path set \<Rightarrow> Server \<Rightarrow> bool" where
  "interpreter_found h fs s =
     (find_component fs (python_pkg h)
        (python_search_paths
          (s \<lparr> comfy_dir := find_component fs comfy_pkg [path s, path s @ [''ComfyUI'']] \<rparr>)) \<noteq> None
      \<or> (which h ''python'' \<noteq> None \<and> which h ''pip'' \<noteq> None))"

definition probe_paths :: "string list \<Rightarrow> path list \<Rightarrow> path list" where
  "probe_paths files ps = concat (map (\<lambda>p. p # map (\<lambda>file. p @ [file]) files) ps)"

definition checkpoint_files :: "path \<Rightarrow> path set" where
  "checkpoint_files d = set (map (model_file d) default_checkpoints)"

definition install_targets :: "Outside \<Rightarrow> Server \<Rightarrow> path set" where
  "install_targets out s =
     (let comfy = (case comfy_dir s of None \<Rightarrow> path s @ [''ComfyUI''] | Some d \<Rightarrow> d) in
      (if is_windows (host out) \<and> (comfy_dir s = None \<or> python_cmd s = None \<or> pip_cmd s = None)
       then {path s @ [''python'']} else {})
      \<union> {comfy}
      \<union> set (map (node_dir comfy) required_custom_nodes)
      \<union> set (map (model_file comfy) required_models))"

definition optional_fetches :: "path \<Rightarrow> ModelResource list \<Rightarrow> (string \<times> path) set" where
  "optional_fetches d cps = set (map (\<lambda>cp. (res_url cp, model_file d cp)) cps)"

definition is_work :: "Event \<Rightarrow> bool" where
  "is_work ev = (case ev of Download l a \<Rightarrow> True | ExtractAll a t \<Rightarrow> True | Exec c d \<Rightarrow> True
                 | _ \<Rightarrow> False)"

definition quiet_extension :: "World \<Rightarrow> World \<Rightarrow> bool" where
  "quiet_extension w w' = (\<exists>es. trace w' = trace w @ es \<and> list_all (\<lambda>ev. \<not> is_work ev) es)"




subsection \<open>Relations between the state before and after an action\<close>

definition preorder :: "('s \<Rightarrow> 's \<Rightarrow> bool) \<Rightarrow> bool" where
  "preorder R = ((\<forall>x. R x x) \<and> (\<forall>x y z. R x y \<longrightarrow> R y z \<longrightarrow> R x z))"

definition stable :: "(Server \<times> World \<Rightarrow> Server \<times> World \<Rightarrow> bool) \<Rightarrow> 'a action \<Rightarrow> bool" where
  "stable R m = (\<forall>\<sigma>. R \<sigma> (snd (m \<sigma>)))"

definition quiet_given :: "path set \<Rightarrow> Server \<times> World \<Rightarrow> Server \<times> World \<Rightarrow> bool" where
  "quiet_given T \<sigma> \<sigma>' =
     (T \<subseteq> disk (snd \<sigma>) \<longrightarrow> T \<subseteq> disk (snd \<sigma>') \<and> quiet_extension (snd \<sigma>) (snd \<sigma>'))"

definition no_fetch :: "Server \<times> World \<Rightarrow> Server \<times> World \<Rightarrow> bool" where
  "no_fetch \<sigma> \<sigma>' =
     (fst \<sigma>' = fst \<sigma> \<and> disk (snd \<sigma>) \<subseteq> disk (snd \<sigma>')
      \<and> (\<exists>es. trace (snd \<sigma>') = trace (snd \<sigma>) @ es \<and> (\<forall>l a. Download l a \<notin> set es)))"

definition fetches_only :: "(string \<times> path) set \<Rightarrow> Server \<times> World \<Rightarrow> Server \<times> World \<Rightarrow> bool" where
  "fetches_only A \<sigma> \<sigma>' =
     (fst \<sigma>' = fst \<sigma> \<and> disk (snd \<sigma>) \<subseteq> disk (snd \<sigma>')
      \<and> (\<exists>es. trace (snd \<sigma>') = trace (snd \<sigma>) @ es
            \<and> (\<forall>l a. Download l a \<in> set es \<longrightarrow> (l, a) \<in> A \<and> a \<notin> disk (snd \<sigma>))))"

definition on_server :: "(Server \<Rightarrow> Server \<Rightarrow> bool) \<Rightarrow> Server \<times> World \<Rightarrow> Server \<times> World \<Rightarrow> bool" where
  "on_server Q \<sigma> \<sigma>' = Q (fst \<sigma>) (fst \<sigma>')"

definition respects_url :: "(Server \<Rightarrow> Server \<Rightarrow> bool) \<Rightarrow> bool" where
  "respects_url Q = (preorder Q \<and> (\<forall>s s'. url s' = url s \<longrightarrow> Q s s'))"

definition url_kept :: "Server \<Rightarrow> Server \<Rightarrow> bool" where
  "url_kept s s' = (url s' = url s)"

definition url_not_reset :: "Server \<Rightarrow> Server \<Rightarrow> bool" where
  "url_not_reset s s' = (url s \<noteq> None \<longrightarrow> url s' \<noteq> None)"

subsection \<open>Concrete servers, disks, processes and callbacks\<close>

definition srv0 :: Server where
  "srv0 = \<lparr> path = [''srv''], url = None, backend = cuda, state = ServerState.stopped,
       missing_resources = [], python_cmd = None, pip_cmd = None, comfy_dir = None,
       cache_dir = None, process = None, task = None \<rparr>"

definition linux_no_python :: Host where
  "linux_no_python = \<lparr> is_windows = False, which = (\<lambda>_. None) \<rparr>"

definition linux_host :: Host where
  "linux_host = \<lparr> is_windows = False, which = (\<lambda>c. Some [''usr'', ''bin'', c]) \<rparr>"

definition fs_comfy_only :: "path set" where
  "fs_comfy_only = {[''srv''], [''srv'', ''main.py''], [''srv'', ''nodes.py''], [''srv'', ''custom_nodes'']}"

definition fs_complete :: "path set" where
  "fs_complete = fs_comfy_only \<union> set (map (node_dir [''srv'']) required_custom_nodes)
       \<union> set (map (model_file [''srv'']) required_models)"


definition proc_crash :: Process where
  "proc_crash = \<lparr> pid = 8,
       stdout_lines = [''Traceback'' @ [CHR 0x0A]],
       communicate = (\<lambda>t. Some ([], ''ModuleNotFoundError: torch'', 1)), returncode = None \<rparr>"

definition proc_hang :: Process where
  "proc_hang = \<lparr> pid = 9, stdout_lines = [], communicate = (\<lambda>t. None), returncode = None \<rparr>"



definition outside_with :: "Process \<Rightarrow> Outside" where
  "outside_with p = \<lparr> host = linux_host,
       download = (\<lambda>w l a. \<lparr> dl_progress = [], dl_error = None, dl_leaves_file = False \<rparr>),
       extractall = (\<lambda>w a t. \<lparr> members = [], ex_error = None \<rparr>),
       run_process = (\<lambda>w c d. \<lparr> spawn_error = None, out_lines = [], exit_code = Some 0,
                                 err_text = [], creates = [] \<rparr>),
       create_subprocess_exec = (\<lambda>w c a d. Inr p) \<rparr>"

definition world0 :: World where
  "world0 = \<lparr> disk = fs_complete, trace = [] \<rparr>"


definition srv_running :: Server where
  "srv_running = srv0 \<lparr> state := ServerState.running, url := Some ''localhost:9000'',
       process := Some proc_hang, task := Some (ForwardTask 9) \<rparr>"

definition srv_missing :: Server where
  "srv_missing = srv0 \<lparr> state := ServerState.missing_resources,
       python_cmd := Some [''usr'', ''bin'', ''python''], pip_cmd := Some [''usr'', ''bin'', ''pip''],
       comfy_dir := Some [''srv''] \<rparr>"




definition silent_callback :: Callback where
  "silent_callback = (\<lambda>w p. None)"

text \<open>
  The file and the url of the optional checkpoint DreamShaper under the backend root
  \<open>srv\<close>, as the catalog gives them.
\<close>

definition dreamshaper_file :: path where
  "dreamshaper_file = [''srv'', ''models'', ''checkpoints'', ''dreamshaper_8.safetensors'']"

definition dreamshaper_url :: string where
  "dreamshaper_url = ''https://civitai.com/api/download/models/128713?type=Model&format=SafeTensor&size=pruned&fp=fp16''"

section \<open>Properties of the probe\<close>

lemma check_install_stages: "check_install h fs s = classify fs (locate h fs s)"
  by (simp only: check_install_def locate_def classify_def Let_def)

lemma state_classify:
  "state (classify fs s) =
     (if \<not> (has_comfy s \<and> has_python s) then ServerState.not_installed
      else if missing_resources s = []
            \<and> (\<forall>n \<in> set required_custom_nodes. node_dir (the (comfy_dir s)) n \<in> fs)
            \<and> (\<forall>m \<in> set required_models. model_file (the (comfy_dir s)) m \<in> fs)
      then ServerState.stopped else ServerState.missing_resources)"
  by (simp add: classify_def Let_def filter_empty_conv)

lemma missing_classify:
  "missing_resources (classify fs s) =
     (if \<not> (has_comfy s \<and> has_python s) then all_resources
      else missing_resources s
         @ map node_name (filter (\<lambda>n. node_dir (the (comfy_dir s)) n \<notin> fs) required_custom_nodes)
         @ map res_name (filter (\<lambda>m. model_file (the (comfy_dir s)) m \<notin> fs) required_models)
         @ map res_name (filter (\<lambda>m. model_file (the (comfy_dir s)) m \<notin> fs) default_checkpoints))"
  by (simp add: classify_def Let_def)

lemma classify_frame:
  "comfy_dir (classify fs s) = comfy_dir s" "python_cmd (classify fs s) = python_cmd s"
  "pip_cmd (classify fs s) = pip_cmd s" "path (classify fs s) = path s" "url (classify fs s) = url s"
  "process (classify fs s) = process s" "task (classify fs s) = task s"
  "backend (classify fs s) = backend s" "cache_dir (classify fs s) = cache_dir s"
  by (simp_all add: classify_def Let_def)

lemma locate_fields:
  "comfy_dir (locate h fs s) = find_component fs comfy_pkg [path s, path s @ [''ComfyUI'']]"
  "missing_resources (locate h fs s) = []"
  "path (locate h fs s) = path s" "url (locate h fs s) = url s"
  "process (locate h fs s) = process s" "task (locate h fs s) = task s"
  "backend (locate h fs s) = backend s" "cache_dir (locate h fs s) = Some (path s @ [''.cache''])"
  "state (locate h fs s) = state s"
  by (simp_all add: locate_def Let_def split: option.split)

lemma has_comfy_check_install:
  "has_comfy (check_install h fs s) = backend_root_found fs s"
  by (simp add: check_install_stages has_comfy_def classify_frame locate_fields backend_root_found_def)

lemma python_search_paths_cong:
  "path s = path s' \<Longrightarrow> comfy_dir s = comfy_dir s' \<Longrightarrow> python_search_paths s = python_search_paths s'"
  by (simp add: python_search_paths_def)

lemma has_python_locate:
  "has_python (locate h fs s) = interpreter_found h fs s"
proof -
  let ?s2 = "s \<lparr> missing_resources := [], cache_dir := Some (path s @ [''.cache'']),
                 comfy_dir := find_component fs comfy_pkg [path s, path s @ [''ComfyUI'']] \<rparr>"
  have eq: "python_search_paths ?s2 = python_search_paths
          (s \<lparr> comfy_dir := find_component fs comfy_pkg [path s, path s @ [''ComfyUI'']] \<rparr>)"
    by (rule python_search_paths_cong) simp_all
  show ?thesis
    unfolding locate_def Let_def interpreter_found_def eq[symmetric]
    by (cases "find_component fs (python_pkg h) (python_search_paths ?s2)")
       (simp_all add: has_python_def find_program_def)
qed

lemma has_python_check_install:
  "has_python (check_install h fs s) = interpreter_found h fs s"
proof -
  have "has_python (classify fs (locate h fs s)) = has_python (locate h fs s)"
    by (simp add: has_python_def classify_frame)
  then show ?thesis
    by (simp only: check_install_stages has_python_locate)
qed

lemma state_check_install:
  "state (check_install h fs s) =
     (if \<not> (backend_root_found fs s \<and> interpreter_found h fs s) then ServerState.not_installed
      else if (\<forall>n \<in> set required_custom_nodes. node_dir (the (comfy_dir (check_install h fs s))) n \<in> fs)
            \<and> (\<forall>m \<in> set required_models. model_file (the (comfy_dir (check_install h fs s))) m \<in> fs)
      then ServerState.stopped else ServerState.missing_resources)"
  using has_comfy_check_install[of h fs s] has_python_check_install[of h fs s]
  by (simp add: check_install_stages state_classify classify_frame locate_fields
        has_python_def has_comfy_def)

lemma missing_check_install:
  "missing_resources (check_install h fs s) =
     (if \<not> (backend_root_found fs s \<and> interpreter_found h fs s) then all_resources
      else map node_name (filter (\<lambda>n. node_dir (the (comfy_dir (check_install h fs s))) n \<notin> fs) required_custom_nodes)
         @ map res_name (filter (\<lambda>m. model_file (the (comfy_dir (check_install h fs s))) m \<notin> fs) required_models)
         @ map res_name (filter (\<lambda>m. model_file (the (comfy_dir (check_install h fs s))) m \<notin> fs) default_checkpoints))"
  using has_comfy_check_install[of h fs s] has_python_check_install[of h fs s]
  by (simp add: check_install_stages missing_classify classify_frame locate_fields
        has_python_def has_comfy_def)

text \<open>
  C1 (as amended): \<open>check_install\<close> classifies the installation as \<open>not_installed\<close>, and reports
  the whole catalog as missing, exactly when no backend root is found or no interpreter is
  found (an interpreter counts as found when both the interpreter and the package installer
  are resolved); otherwise it goes on to the checks per resource, which end in
  \<open>missing_resources\<close> or \<open>stopped\<close>.
\<close>

theorem check_install_not_installed:
  "(state (check_install h fs s) = ServerState.not_installed
      \<longleftrightarrow> \<not> (backend_root_found fs s \<and> interpreter_found h fs s))
   \<and> (if backend_root_found fs s \<and> interpreter_found h fs s
       then state (check_install h fs s) \<in> {ServerState.missing_resources, ServerState.stopped}
       else missing_resources (check_install h fs s) = all_resources)
   \<and> has_comfy (check_install h fs s) = backend_root_found fs s
   \<and> has_python (check_install h fs s) = interpreter_found h fs s"
  by (simp add: state_check_install missing_check_install has_comfy_check_install has_python_check_install)

lemma eval_comfy: "backend_root_found fs_comfy_only srv0"
  by (simp add: backend_root_found_def fs_comfy_only_def srv0_def comfy_pkg_def find_component.simps)

lemma eval_no_python: "\<not> interpreter_found linux_no_python fs_comfy_only srv0"
  by (simp add: interpreter_found_def fs_comfy_only_def srv0_def comfy_pkg_def python_pkg_def
       python_search_paths_def parent_def linux_no_python_def find_component.simps)

lemma eval_comfy_dir: "comfy_dir (check_install h fs_comfy_only srv0) = Some [''srv'']"
  by (simp add: check_install_stages classify_frame locate_fields fs_comfy_only_def srv0_def
        comfy_pkg_def find_component.simps)

lemma eval_python: "interpreter_found linux_host fs_comfy_only srv0"
  by (simp add: interpreter_found_def linux_host_def)

text \<open>
  The claim as it was stated asks for not_installed exactly when neither a backend root
  nor an interpreter is found. With a backend root on disk and no interpreter anywhere the
  state is \<open>not_installed\<close> all the same.
\<close>

theorem check_install_not_installed_counterexample:
  "\<not> (state (check_install linux_no_python fs_comfy_only srv0) = ServerState.not_installed
       \<longleftrightarrow> (\<not> backend_root_found fs_comfy_only srv0
            \<and> \<not> interpreter_found linux_no_python fs_comfy_only srv0))"
  by (simp add: state_check_install eval_comfy eval_no_python)

theorem check_install_not_installed_witness:
  "state (check_install linux_no_python fs_comfy_only srv0) = ServerState.not_installed
   \<and> missing_resources (check_install linux_no_python fs_comfy_only srv0) = all_resources
   \<and> state (check_install linux_host fs_comfy_only srv0)
        \<in> {ServerState.missing_resources, ServerState.stopped}"
  using check_install_not_installed[of linux_no_python fs_comfy_only srv0]
        check_install_not_installed[of linux_host fs_comfy_only srv0]
  by (simp add: eval_comfy eval_no_python eval_python)

lemma find_component_cong:
  "(\<And>q. q \<in> set (probe_paths files ps) \<Longrightarrow> (q \<in> fs) = (q \<in> fs')) \<Longrightarrow>
     find_component fs files ps = find_component fs' files ps"
proof (induction ps)
  case Nil
  show ?case by (simp add: find_component.simps)
next
  case (Cons p ps)
  have tl: "find_component fs files ps = find_component fs' files ps"
    by (rule Cons.IH) (simp add: Cons.prems probe_paths_def)
  have hd: "list_all (\<lambda>q. q \<in> fs) (p # map (\<lambda>file. p @ [file]) files)
          = list_all (\<lambda>q. q \<in> fs') (p # map (\<lambda>file. p @ [file]) files)"
    using Cons.prems by (auto simp: probe_paths_def list_all_iff)
  show ?case
    by (simp only: find_component.simps hd tl)
qed

lemma find_component_Some:
  "find_component fs files ps = Some p \<Longrightarrow> p \<in> set ps \<and> p \<in> fs"
  by (induction ps) (auto simp: find_component.simps split: if_splits)

lemma checkpoint_file_shape:
  "p \<in> checkpoint_files d \<Longrightarrow>
     length p = length d + 3 \<and>
     last p \<in> {''realisticVisionV51_v51VAE.safetensors'', ''dreamshaper_8.safetensors''}"
  by (auto simp: checkpoint_files_def default_checkpoints_def model_file_def)

lemma comfy_probe_not_checkpoint:
  assumes d: "d = root \<or> d = root @ [''ComfyUI'']"
      and q: "q \<in> set (probe_paths comfy_pkg [root, root @ [''ComfyUI'']])"
  shows "q \<notin> checkpoint_files d"
proof
  assume "q \<in> checkpoint_files d"
  then have sh: "length q = length d + 3"
      "last q \<in> {''realisticVisionV51_v51VAE.safetensors'', ''dreamshaper_8.safetensors''}"
    using checkpoint_file_shape by blast+
  from q have "length q \<le> length root + 2 \<and> (length q = length root + 2 \<longrightarrow> last q \<in> set comfy_pkg)"
    by (auto simp: probe_paths_def comfy_pkg_def)
  with sh d show False
    by (auto simp: comfy_pkg_def)
qed

lemma python_probe_not_checkpoint:
  assumes d: "d = root \<or> d = root @ [''ComfyUI'']"
      and q: "q \<in> set (probe_paths (python_pkg h)
                 [root @ [''python''], d @ [''python''], parent d @ [''python''],
                  parent d @ [''python_embeded'']])"
  shows "q \<notin> checkpoint_files d"
proof
  assume "q \<in> checkpoint_files d"
  then have sh: "length q = length d + 3"
      "last q \<in> {''realisticVisionV51_v51VAE.safetensors'', ''dreamshaper_8.safetensors''}"
    using checkpoint_file_shape by blast+
  from q have "length q \<le> length d + 2"
    using d by (auto simp: probe_paths_def python_pkg_def parent_def split: if_splits)
  with sh show False by simp
qed

lemma required_not_checkpoint:
  "n \<in> set required_custom_nodes \<Longrightarrow> node_dir d n \<notin> checkpoint_files d"
  "m \<in> set required_models \<Longrightarrow> model_file d m \<notin> checkpoint_files d"
  by (auto simp: checkpoint_files_def default_checkpoints_def model_file_def node_dir_def
        required_custom_nodes_def required_models_def)

lemma probe_checkpoint_indep:
  assumes cd: "comfy_dir (check_install h fs s) = Some d"
      and same: "\<And>p. p \<notin> checkpoint_files d \<Longrightarrow> (p \<in> fs') = (p \<in> fs)"
  shows "comfy_dir (check_install h fs' s) = Some d"
    and "backend_root_found fs' s = backend_root_found fs s"
    and "interpreter_found h fs' s = interpreter_found h fs s"
proof -
  let ?roots = "[path s, path s @ [''ComfyUI'']]"
  have fc: "find_component fs comfy_pkg ?roots = Some d"
    using cd by (simp add: check_install_stages classify_frame locate_fields)
  then have d: "d = path s \<or> d = path s @ [''ComfyUI'']"
    using find_component_Some[of fs comfy_pkg ?roots d] by auto
  have "find_component fs' comfy_pkg ?roots = find_component fs comfy_pkg ?roots"
    by (rule find_component_cong) (use comfy_probe_not_checkpoint[OF d] same in blast)
  with fc have fc': "find_component fs' comfy_pkg ?roots = Some d" by simp
  show "comfy_dir (check_install h fs' s) = Some d"
    using fc' by (simp add: check_install_stages classify_frame locate_fields)
  show "backend_root_found fs' s = backend_root_found fs s"
    by (simp add: backend_root_found_def fc fc')
  have sp: "python_search_paths (s\<lparr>comfy_dir := Some d\<rparr>)
      = [path s @ [''python''], d @ [''python''], parent d @ [''python''],
         parent d @ [''python_embeded'']]"
    by (simp add: python_search_paths_def)
  have "find_component fs' (python_pkg h) (python_search_paths (s\<lparr>comfy_dir := Some d\<rparr>))
      = find_component fs (python_pkg h) (python_search_paths (s\<lparr>comfy_dir := Some d\<rparr>))"
    unfolding sp
    by (rule find_component_cong) (use python_probe_not_checkpoint[OF d] same in blast)
  then show "interpreter_found h fs' s = interpreter_found h fs s"
    by (simp add: interpreter_found_def fc fc')
qed

text \<open>
  C2: when a backend root and an interpreter are found, the state is \<open>missing_resources\<close> if
  and only if a required custom node or a required model is absent, and \<open>stopped\<close> otherwise;
  the list of missing resources holds the absent required custom nodes, then the absent
  required models, then the absent optional checkpoints, each in the order of the catalog;
  and the state does not depend on which optional checkpoint files exist.
\<close>

theorem check_install_classification:
  assumes root: "comfy_dir (check_install h fs s) = Some d"
      and interp: "has_python (check_install h fs s)"
  shows "state (check_install h fs s) =
           (if (\<exists>n \<in> set required_custom_nodes. node_dir d n \<notin> fs)
              \<or> (\<exists>m \<in> set required_models. model_file d m \<notin> fs)
            then ServerState.missing_resources else ServerState.stopped)
       \<and> missing_resources (check_install h fs s) =
           map node_name (filter (\<lambda>n. node_dir d n \<notin> fs) required_custom_nodes)
         @ map res_name (filter (\<lambda>m. model_file d m \<notin> fs) required_models)
         @ map res_name (filter (\<lambda>m. model_file d m \<notin> fs) default_checkpoints)
       \<and> ((\<forall>p. p \<notin> checkpoint_files d \<longrightarrow> (p \<in> fs') = (p \<in> fs))
           \<longrightarrow> state (check_install h fs' s) = state (check_install h fs s))"
proof -
  have found: "backend_root_found fs s" "interpreter_found h fs s"
    using root interp has_comfy_check_install[of h fs s] has_python_check_install[of h fs s]
    by (simp_all add: has_comfy_def)
  have st: "state (check_install h fs s) =
           (if (\<exists>n \<in> set required_custom_nodes. node_dir d n \<notin> fs)
              \<or> (\<exists>m \<in> set required_models. model_file d m \<notin> fs)
            then ServerState.missing_resources else ServerState.stopped)"
    using found root by (subst state_check_install) auto
  have ms: "missing_resources (check_install h fs s) =
           map node_name (filter (\<lambda>n. node_dir d n \<notin> fs) required_custom_nodes)
         @ map res_name (filter (\<lambda>m. model_file d m \<notin> fs) required_models)
         @ map res_name (filter (\<lambda>m. model_file d m \<notin> fs) default_checkpoints)"
    using found root by (subst missing_check_install) simp
  have fr: "(\<forall>p. p \<notin> checkpoint_files d \<longrightarrow> (p \<in> fs') = (p \<in> fs))
           \<longrightarrow> state (check_install h fs' s) = state (check_install h fs s)"
  proof
    assume same: "\<forall>p. p \<notin> checkpoint_files d \<longrightarrow> (p \<in> fs') = (p \<in> fs)"
    then have same': "\<And>p. p \<notin> checkpoint_files d \<Longrightarrow> (p \<in> fs') = (p \<in> fs)" by blast
    note ind = probe_checkpoint_indep[OF root same']
    have req: "(\<forall>n \<in> set required_custom_nodes. node_dir d n \<in> fs') =
               (\<forall>n \<in> set required_custom_nodes. node_dir d n \<in> fs)"
              "(\<forall>m \<in> set required_models. model_file d m \<in> fs') =
               (\<forall>m \<in> set required_models. model_file d m \<in> fs)"
      using same' required_not_checkpoint by blast+
    have "state (check_install h fs' s) =
           (if (\<forall>n \<in> set required_custom_nodes. node_dir d n \<in> fs')
              \<and> (\<forall>m \<in> set required_models. model_file d m \<in> fs')
            then ServerState.stopped else ServerState.missing_resources)"
      using found ind by (subst state_check_install) simp
    with st req show "state (check_install h fs' s) = state (check_install h fs s)"
      by auto
  qed
  from st ms fr show ?thesis by (intro conjI)
qed

lemma fs_complete_mem:
  "[''srv''] \<in> fs_complete" "[''srv'', ''main.py''] \<in> fs_complete"
  "[''srv'', ''nodes.py''] \<in> fs_complete" "[''srv'', ''custom_nodes''] \<in> fs_complete"
  by (simp_all add: fs_complete_def fs_comfy_only_def)

lemma eval_complete_comfy_dir: "comfy_dir (check_install h fs_complete srv0) = Some [''srv'']"
  by (simp add: check_install_stages classify_frame locate_fields srv0_def
        comfy_pkg_def find_component.simps fs_complete_mem)

lemma eval_complete_python: "has_python (check_install linux_host fs_complete srv0)"
  by (simp add: has_python_check_install interpreter_found_def linux_host_def)

lemma eval_checkpoints_absent:
  "m \<in> set default_checkpoints \<Longrightarrow> model_file [''srv''] m \<notin> fs_complete"
  by (auto simp: fs_complete_def fs_comfy_only_def default_checkpoints_def model_file_def
       node_dir_def required_custom_nodes_def required_models_def)

theorem check_install_classification_witness:
  "comfy_dir (check_install linux_host fs_complete srv0) = Some [''srv'']
   \<and> has_python (check_install linux_host fs_complete srv0)
   \<and> state (check_install linux_host fs_complete srv0) = ServerState.stopped
   \<and> missing_resources (check_install linux_host fs_complete srv0)
        = [''Realistic Vision'', ''DreamShaper'']
   \<and> state (check_install linux_host (fs_complete \<union> checkpoint_files [''srv'']) srv0)
        = ServerState.stopped"
proof -
  have a: "\<forall>p. p \<notin> checkpoint_files [''srv''] \<longrightarrow>
             (p \<in> fs_complete \<union> checkpoint_files [''srv'']) = (p \<in> fs_complete)"
    by simp
  have b: "\<not> ((\<exists>n \<in> set required_custom_nodes. node_dir [''srv''] n \<notin> fs_complete)
              \<or> (\<exists>m \<in> set required_models. model_file [''srv''] m \<notin> fs_complete))"
    by (simp add: fs_complete_def)
  have c: "filter (\<lambda>n. node_dir [''srv''] n \<notin> fs_complete) required_custom_nodes = []"
          "filter (\<lambda>m. model_file [''srv''] m \<notin> fs_complete) required_models = []"
    by (simp_all add: fs_complete_def filter_empty_conv)
  have d: "filter (\<lambda>m. model_file [''srv''] m \<notin> fs_complete) default_checkpoints = default_checkpoints"
    by (simp add: filter_id_conv eval_checkpoints_absent)
  have e: "map res_name default_checkpoints = [''Realistic Vision'', ''DreamShaper'']"
    by (simp add: default_checkpoints_def)
  show ?thesis
    using check_install_classification[OF eval_complete_comfy_dir eval_complete_python,
            of "fs_complete \<union> checkpoint_files [''srv'']"] a b
    by (simp only: eval_complete_comfy_dir eval_complete_python c d e if_False simp_thms
          list.map append_Nil)
qed

section \<open>Running actions\<close>

lemma return_apply: "return x \<sigma> = (Inr x, \<sigma>)"
  by (simp add: return_def)

lemma raise_apply: "raise e \<sigma> = (Inl e, \<sigma>)"
  by (simp add: raise_def)

lemma bnd_Inr: "m \<sigma> = (Inr x, \<sigma>') \<Longrightarrow> bnd m k \<sigma> = k x \<sigma>'"
  by (simp add: bnd_def)

lemma bnd_Inl: "m \<sigma> = (Inl e, \<sigma>') \<Longrightarrow> bnd m k \<sigma> = (Inl e, \<sigma>')"
  by (simp add: bnd_def)

lemma thn_Inr: "m \<sigma> = (Inr x, \<sigma>') \<Longrightarrow> thn m k \<sigma> = k \<sigma>'"
  by (simp add: thn_def bnd_def)

lemma thn_Inl: "m \<sigma> = (Inl e, \<sigma>') \<Longrightarrow> thn m k \<sigma> = (Inl e, \<sigma>')"
  by (simp add: thn_def bnd_def)

lemma get_server_apply: "get_server \<sigma> = (Inr (fst \<sigma>), \<sigma>)"
  by (simp add: get_server_def)

lemma get_world_apply: "get_world \<sigma> = (Inr (snd \<sigma>), \<sigma>)"
  by (simp add: get_world_def)

lemma modify_server_apply: "modify_server f \<sigma> = (Inr (), (f (fst \<sigma>), snd \<sigma>))"
  by (simp add: modify_server_def)

lemma modify_fs_apply:
  "modify_fs f \<sigma> = (Inr (), (fst \<sigma>, (snd \<sigma>) \<lparr> disk := f (disk (snd \<sigma>)) \<rparr>))"
  by (simp add: modify_fs_def)

lemma emit_apply:
  "emit ev \<sigma> = (Inr (), (fst \<sigma>, (snd \<sigma>) \<lparr> trace := trace (snd \<sigma>) @ [ev] \<rparr>))"
  by (simp add: emit_def)

lemma log_apply:
  "log l m \<sigma> = (Inr (), (fst \<sigma>, (snd \<sigma>) \<lparr> trace := trace (snd \<sigma>) @ [Log l m] \<rparr>))"
  by (simp add: log_def emit_def)

lemma exists_on_disk_apply: "exists_on_disk p \<sigma> = (Inr (p \<in> disk (snd \<sigma>)), \<sigma>)"
  by (simp add: exists_on_disk_def)

lemma when_true_apply: "when_true c m \<sigma> = (if c then m \<sigma> else (Inr (), \<sigma>))"
  by (simp add: when_true_def return_def)

lemma the_process_Some: "process s = Some p \<Longrightarrow> the_process (s, w) = (Inr p, (s, w))"
  by (simp add: the_process_def bnd_def get_server_def return_def)

lemma the_process_None: "process s = None \<Longrightarrow> the_process (s, w) = (Inl AttributeError, (s, w))"
  by (simp add: the_process_def bnd_def get_server_def raise_def)

lemma the_task_Some: "task s = Some t \<Longrightarrow> the_task (s, w) = (Inr t, (s, w))"
  by (simp add: the_task_def bnd_def get_server_def return_def)

lemma the_task_None: "task s = None \<Longrightarrow> the_task (s, w) = (Inl AttributeError, (s, w))"
  by (simp add: the_task_def bnd_def get_server_def raise_def)

lemma wait_for_communicate_timeout:
  "process s = Some p \<Longrightarrow> communicate p t = None \<Longrightarrow>
     wait_for_communicate t (s, w) = (Inl TimeoutError, (s, w))"
  by (simp add: wait_for_communicate_def the_process_Some bnd_Inr raise_def)

lemma wait_for_communicate_done:
  "process s = Some p \<Longrightarrow> communicate p t = Some (out_text, err, code) \<Longrightarrow>
     wait_for_communicate t (s, w) =
       (Inr (out_text, err),
        (s \<lparr> process := Some (p \<lparr> stdout_lines := [], returncode := Some code \<rparr>) \<rparr>, w))"
  by (simp add: wait_for_communicate_def the_process_Some bnd_Inr thn_def bnd_def
        modify_server_def return_def)

lemmas run =
  return_apply raise_apply bnd_Inr bnd_Inl thn_Inr thn_Inl get_server_apply get_world_apply
  modify_server_apply modify_fs_apply emit_apply log_apply exists_on_disk_apply when_true_apply
  the_process_Some the_process_None the_task_Some the_task_None
  wait_for_communicate_timeout wait_for_communicate_done

lemma stop_with_handles:
  assumes "state s = ServerState.running" "process s = Some p" "task s = Some t"
  shows "stop (s, w) =
           (Inr (), (s \<lparr> state := ServerState.stopped, process := None, task := None \<rparr>,
                     w \<lparr> trace := trace w @ stop_events p t \<rparr>))"
proof (cases "communicate p 5")
  case None
  with assms show ?thesis
    by (simp add: run stop_def try_finally_def except_timeout_def stop_events_def)
next
  case (Some r)
  then obtain out_text err code where "communicate p 5 = Some (out_text, err, code)"
    by (cases r) auto
  with assms show ?thesis
    by (simp add: run stop_def try_finally_def except_timeout_def stop_events_def str_returncode_def)
qed

lemma stableD: "stable R m \<Longrightarrow> m \<sigma> = (r, \<sigma>') \<Longrightarrow> R \<sigma> \<sigma>'"
  unfolding stable_def by (metis snd_conv)

lemma stableD': "stable R m \<Longrightarrow> R \<sigma> (snd (m \<sigma>))"
  unfolding stable_def by blast

lemma stableI: "(\<And>\<sigma>. R \<sigma> (snd (m \<sigma>))) \<Longrightarrow> stable R m"
  unfolding stable_def by blast

lemma preorder_refl: "preorder R \<Longrightarrow> R x x"
  by (simp add: preorder_def)

lemma preorder_trans: "preorder R \<Longrightarrow> R x y \<Longrightarrow> R y z \<Longrightarrow> R x z"
  unfolding preorder_def by blast

lemma stable_return: "preorder R \<Longrightarrow> stable R (return x)"
  by (rule stableI) (simp add: return_def preorder_refl)

lemma stable_raise: "preorder R \<Longrightarrow> stable R (raise e)"
  by (rule stableI) (simp add: raise_def preorder_refl)

lemma stable_get_server: "preorder R \<Longrightarrow> stable R get_server"
  by (rule stableI) (simp add: get_server_def preorder_refl)

lemma stable_get_world: "preorder R \<Longrightarrow> stable R get_world"
  by (rule stableI) (simp add: get_world_def preorder_refl)

lemma stable_exists_on_disk: "preorder R \<Longrightarrow> stable R (exists_on_disk p)"
  by (rule stableI) (simp add: preorder_refl exists_on_disk_def)

lemma stable_require: "preorder R \<Longrightarrow> stable R (require v)"
  by (cases v) (simp_all add: require_def stable_return stable_raise)

lemma stable_bnd:
  assumes "preorder R" "stable R m" "\<And>x. stable R (k x)"
  shows "stable R (bnd m k)"
  unfolding stable_def
proof
  fix \<sigma>
  obtain r \<sigma>1 where m: "m \<sigma> = (r, \<sigma>1)" by (cases "m \<sigma>")
  have r1: "R \<sigma> \<sigma>1" using stableD[OF assms(2) m] .
  show "R \<sigma> (snd (bnd m k \<sigma>))"
  proof (cases r)
    case (Inl e)
    with m r1 show ?thesis by (simp add: bnd_def)
  next
    case (Inr x)
    have "R \<sigma>1 (snd (k x \<sigma>1))" using assms(3)[of x] by (rule stableD')
    with r1 have "R \<sigma> (snd (k x \<sigma>1))" by (rule preorder_trans[OF assms(1)])
    with m Inr show ?thesis by (simp add: bnd_def)
  qed
qed

lemma stable_thn:
  "preorder R \<Longrightarrow> stable R m \<Longrightarrow> stable R k \<Longrightarrow> stable R (thn m k)"
  unfolding thn_def by (rule stable_bnd) simp_all

lemma stable_when_true:
  "preorder R \<Longrightarrow> (c \<Longrightarrow> stable R m) \<Longrightarrow> stable R (when_true c m)"
  by (simp add: when_true_def stable_return)

lemma stable_if:
  "(c \<Longrightarrow> stable R a) \<Longrightarrow> (\<not> c \<Longrightarrow> stable R b) \<Longrightarrow> stable R (if c then a else b)"
  by simp

lemma stable_let: "(\<And>x. x = v \<Longrightarrow> stable R (k x)) \<Longrightarrow> stable R (Let v k)"
  by (simp add: Let_def)

lemma stable_case_option:
  "(v = None \<Longrightarrow> stable R a) \<Longrightarrow> (\<And>x. v = Some x \<Longrightarrow> stable R (b x)) \<Longrightarrow>
     stable R (case v of None \<Rightarrow> a | Some x \<Rightarrow> b x)"
  by (cases v) simp_all

lemma stable_case_sum:
  "(\<And>x. v = Inl x \<Longrightarrow> stable R (a x)) \<Longrightarrow> (\<And>x. v = Inr x \<Longrightarrow> stable R (b x)) \<Longrightarrow>
     stable R (case v of Inl x \<Rightarrow> a x | Inr x \<Rightarrow> b x)"
  by (cases v) simp_all

lemma stable_case_prod:
  "(\<And>x y. stable R (f x y)) \<Longrightarrow> stable R (case v of (x, y) \<Rightarrow> f x y)"
  by (cases v) simp

lemma stable_try_except:
  assumes "preorder R" "stable R m" "\<And>e. stable R (handler e)"
  shows "stable R (try_except m handler)"
  unfolding stable_def
proof
  fix \<sigma>
  obtain r \<sigma>1 where m: "m \<sigma> = (r, \<sigma>1)" by (cases "m \<sigma>")
  have r1: "R \<sigma> \<sigma>1" using stableD[OF assms(2) m] .
  show "R \<sigma> (snd (try_except m handler \<sigma>))"
  proof (cases r)
    case (Inr x)
    with m r1 show ?thesis by (simp add: try_except_def)
  next
    case (Inl e)
    have "R \<sigma>1 (snd (handler e \<sigma>1))" using assms(3)[of e] by (rule stableD')
    with r1 have "R \<sigma> (snd (handler e \<sigma>1))" by (rule preorder_trans[OF assms(1)])
    with m Inl show ?thesis by (simp add: try_except_def)
  qed
qed

lemma stable_except_timeout:
  assumes "preorder R" "stable R m" "stable R handler"
  shows "stable R (except_timeout m handler)"
  unfolding stable_def
proof
  fix \<sigma>
  obtain r \<sigma>1 where m: "m \<sigma> = (r, \<sigma>1)" by (cases "m \<sigma>")
  have r1: "R \<sigma> \<sigma>1" using stableD[OF assms(2) m] .
  have "R \<sigma>1 (snd (handler \<sigma>1))" using assms(3) by (rule stableD')
  with r1 have r2: "R \<sigma> (snd (handler \<sigma>1))" by (rule preorder_trans[OF assms(1)])
  show "R \<sigma> (snd (except_timeout m handler \<sigma>))"
    using m r1 r2 by (cases r) (simp_all add: except_timeout_def)
qed

lemma stable_try_finally:
  assumes "preorder R" "stable R m" "stable R cleanup"
  shows "stable R (try_finally m cleanup)"
  unfolding stable_def
proof
  fix \<sigma>
  obtain r \<sigma>1 where m: "m \<sigma> = (r, \<sigma>1)" by (cases "m \<sigma>")
  have r1: "R \<sigma> \<sigma>1" using stableD[OF assms(2) m] .
  obtain c \<sigma>2 where c: "cleanup \<sigma>1 = (c, \<sigma>2)" by (cases "cleanup \<sigma>1")
  have "R \<sigma>1 \<sigma>2" using stableD[OF assms(3) c] .
  with r1 have "R \<sigma> \<sigma>2" by (rule preorder_trans[OF assms(1)])
  then show "R \<sigma> (snd (try_finally m cleanup \<sigma>))"
    using m c by (cases c) (simp_all add: try_finally_def)
qed

lemma stable_for_each:
  assumes "preorder R" "\<And>x. x \<in> set xs \<Longrightarrow> stable R (body x)"
  shows "stable R (for_each body xs)"
  using assms(2)
proof (induction xs)
  case Nil
  show ?case by (simp only: for_each.simps stable_return[OF assms(1)])
next
  case (Cons x xs)
  show ?case
    unfolding for_each.simps
    by (rule stable_thn[OF assms(1)]) (simp_all add: Cons)
qed

lemmas stable_structure =
  stable_return stable_raise stable_get_server stable_get_world stable_exists_on_disk
  stable_require stable_bnd stable_thn stable_when_true stable_if stable_let
  stable_case_option stable_case_sum stable_case_prod stable_try_except
  stable_except_timeout stable_try_finally stable_for_each

section \<open>Starting and stopping the server process\<close>
















section \<open>Installing\<close>

lemma install_if_missing_apply:
  "install_if_missing p installer (s, w) =
     (if p \<in> disk w then (Inr (), (s, w))
      else case installer (s, w) of
             (Inr x, \<sigma>') \<Rightarrow> (Inr x, \<sigma>')
           | (Inl e, (s', w')) \<Rightarrow>
               (Inl e, (s', w' \<lparr> trace := trace w' @ [Rmtree p],
                                 disk := Set.filter (\<lambda>q. \<not> prefix p q) (disk w') \<rparr>)))"
  by (simp add: install_if_missing_def rmtree_def try_except_def run bnd_def thn_def
        split: prod.split sum.split)











lemma probe_depends_on_path:
  assumes "path s = path s'"
  shows "backend_root_found fs s = backend_root_found fs s'"
    and "interpreter_found h fs s = interpreter_found h fs s'"
    and "comfy_dir (check_install h fs s) = comfy_dir (check_install h fs s')"
proof -
  show "backend_root_found fs s = backend_root_found fs s'"
    by (simp add: backend_root_found_def assms)
  have "python_search_paths (s\<lparr>comfy_dir := c\<rparr>) = python_search_paths (s'\<lparr>comfy_dir := c\<rparr>)" for c
    by (rule python_search_paths_cong) (simp_all add: assms)
  then show "interpreter_found h fs s = interpreter_found h fs s'"
    by (simp add: interpreter_found_def assms)
  show "comfy_dir (check_install h fs s) = comfy_dir (check_install h fs s')"
    by (simp add: check_install_stages classify_frame locate_fields assms)
qed

lemma state_probe_depends_on_path:
  "path s = path s' \<Longrightarrow> state (check_install h fs s) = state (check_install h fs s')"
  by (simp only: state_check_install[of h fs s] state_check_install[of h fs s']
        probe_depends_on_path[of s s'])







lemma cb_apply:
  "cb callback stg message prog (s, w) =
     (let w1 = w \<lparr> trace := trace w
                 @ (if message \<noteq> None \<and> message \<noteq> Some [] then [Log Info (the message)] else [])
                 @ [Notify \<lparr> stage = stg, progress = prog \<rparr>] \<rparr>
      in (case callback w1 \<lparr> stage = stg, progress = prog \<rparr> of
            None \<Rightarrow> Inr () | Some e \<Rightarrow> Inl e, (s, w1)))"
  by (simp add: cb_def run bnd_def thn_def Let_def split: option.split)

lemma thn_modify_server: "thn (modify_server f) k \<sigma> = k (f (fst \<sigma>), snd \<sigma>)"
  by (simp add: thn_def bnd_def modify_server_def)

lemma bnd_get_server: "bnd get_server k \<sigma> = k (fst \<sigma>) \<sigma>"
  by (simp add: bnd_def get_server_def)



lemma quiet_extension_refl: "quiet_extension w w"
  by (simp add: quiet_extension_def)

lemma quiet_extension_trans:
  "quiet_extension w w1 \<Longrightarrow> quiet_extension w1 w2 \<Longrightarrow> quiet_extension w w2"
  unfolding quiet_extension_def by (metis append.assoc list_all_append)

lemma quiet_extension_events:
  "list_all (\<lambda>ev. \<not> is_work ev) es \<Longrightarrow> trace w' = trace w @ es \<Longrightarrow> quiet_extension w w'"
  unfolding quiet_extension_def by blast

lemma preorder_quiet_given: "preorder (quiet_given T)"
  unfolding preorder_def quiet_given_def
  by (metis quiet_extension_refl quiet_extension_trans)

lemma quiet_modify_server: "stable (quiet_given T) (modify_server f)"
  by (rule stableI) (simp add: modify_server_def quiet_given_def quiet_extension_refl)

lemma quiet_do_check_install: "stable (quiet_given T) (do_check_install out)"
  by (rule stableI) (simp add: do_check_install_def quiet_given_def quiet_extension_refl)

lemma quiet_log: "stable (quiet_given T) (log l m)"
  by (rule stableI)
     (auto simp: log_apply quiet_given_def is_work_def intro: quiet_extension_events[of "[Log l m]"])

lemma quiet_cb: "stable (quiet_given T) (cb callback stg message prog)"
proof (rule stableI)
  fix \<sigma> :: "Server \<times> World"
  obtain s w where \<sigma>: "\<sigma> = (s, w)" by (cases \<sigma>)
  show "quiet_given T \<sigma> (snd (cb callback stg message prog \<sigma>))"
    unfolding \<sigma> cb_apply Let_def quiet_given_def
    by (auto simp: is_work_def intro!: quiet_extension_events[of
          "(if message \<noteq> None \<and> message \<noteq> Some [] then [Log Info (the message)] else [])
           @ [Notify \<lparr> stage = stg, progress = prog \<rparr>]"])
qed

lemma quiet_mkdir: "stable (quiet_given T) (mkdir p)"
  by (rule stableI)
     (auto simp: mkdir_def run thn_def bnd_def quiet_given_def is_work_def
           intro: quiet_extension_events[of "[Mkdir p]"])

lemma quiet_install_if_missing:
  "p \<in> T \<Longrightarrow> stable (quiet_given T) (install_if_missing p installer)"
  by (rule stableI)
     (auto simp: install_if_missing_def run bnd_def quiet_given_def quiet_extension_refl)

lemma quiet_if_exists:
  "p \<in> T \<Longrightarrow> stable (quiet_given T) (bnd (exists_on_disk p) (\<lambda>there. when_true (\<not> there) m))"
  by (rule stableI)
     (auto simp: run bnd_def quiet_given_def quiet_extension_refl)

lemmas quiet_leaves =
  quiet_modify_server quiet_do_check_install quiet_log quiet_cb quiet_mkdir
  quiet_install_if_missing quiet_if_exists

lemma install_inner_quiet:
  assumes T: "T = install_targets out s"
  shows "quiet_given T (s, w) (snd (install_inner out callback (s, w)))"
proof -
  define s1 where "s1 = s \<lparr> state := ServerState.installing \<rparr>"
  have f: "path s1 = path s" "comfy_dir s1 = comfy_dir s" "python_cmd s1 = python_cmd s"
          "pip_cmd s1 = pip_cmd s"
    by (simp_all add: s1_def)
  note P = preorder_quiet_given[of T]
  have same: "quiet_given T (s, w) x = quiet_given T (s1, w) x" for x
    by (simp add: quiet_given_def)
  show ?thesis
    unfolding install_inner_def same
    apply (simp only: thn_modify_server bnd_get_server fst_conv snd_conv s1_def[symmetric] f)
    apply (rule stableD')
    apply (intro quiet_leaves stable_structure P)
    apply (auto simp: T install_targets_def node_dir_def model_file_def Let_def)
    done
qed

lemma try_except_pointwise:
  assumes "preorder R" "R \<sigma> (snd (m \<sigma>))" "\<And>e. stable R (handler e)"
  shows "R \<sigma> (snd (try_except m handler \<sigma>))"
proof -
  obtain r \<sigma>1 where m: "m \<sigma> = (r, \<sigma>1)" by (cases "m \<sigma>")
  with assms(2) have r1: "R \<sigma> \<sigma>1" by simp
  show ?thesis
  proof (cases r)
    case (Inr x)
    with m r1 show ?thesis by (simp add: try_except_def)
  next
    case (Inl e)
    have "R \<sigma>1 (snd (handler e \<sigma>1))" using assms(3)[of e] by (rule stableD')
    with r1 have "R \<sigma> (snd (handler e \<sigma>1))" by (rule preorder_trans[OF assms(1)])
    with m Inl show ?thesis by (simp add: try_except_def)
  qed
qed

lemma install_quiet:
  assumes T: "T = install_targets out s"
  shows "quiet_given T (s, w) (snd (install out callback (s, w)))"
proof -
  note P = preorder_quiet_given[of T]
  have handler: "stable (quiet_given T)
          (thn (log Exception (str_error e))
          (thn (log Error ''Installation failed'')
          (thn (modify_server (\<lambda>s. s \<lparr> state := ServerState.stopped \<rparr>))
          (thn (do_check_install out) (raise e)))))" for e
    by (intro quiet_leaves stable_structure P)
  have body: "quiet_given T (s, w) (snd (try_except (install_inner out callback)
          (\<lambda>e. thn (log Exception (str_error e))
          (thn (log Error ''Installation failed'')
          (thn (modify_server (\<lambda>s. s \<lparr> state := ServerState.stopped \<rparr>))
          (thn (do_check_install out) (raise e))))) (s, w)))"
    by (rule try_except_pointwise[where m = "install_inner out callback", OF P _ handler])
       (rule install_inner_quiet[OF T])
  show ?thesis
    unfolding install_def bnd_get_server
    using body by (simp add: raise_def preorder_refl[OF P])
qed

text \<open>
  C8: a step whose target exists does nothing (\<open>install_if_missing\<close> returns at once and
  leaves server and world as they are), and so does a download whose destination exists.
  Hence, when the target of every step is on the disk, \<open>install\<close> performs no download,
  no extraction and runs no child process.
\<close>

theorem install_skips_existing:
  "(p \<in> disk w \<longrightarrow> install_if_missing p installer (s, w) = (Inr (), (s, w)))
   \<and> (archive \<in> disk w \<longrightarrow>
        download_cached out callback name link archive (s, w) = (Inr (), (s, w)))
   \<and> (install_targets out s \<subseteq> disk w \<longrightarrow>
        quiet_extension w (snd (snd (install_inner out callback (s, w))))
      \<and> quiet_extension w (snd (snd (install out callback (s, w)))))"
proof (intro conjI impI)
  assume "p \<in> disk w"
  then show "install_if_missing p installer (s, w) = (Inr (), (s, w))"
    by (simp add: install_if_missing_apply)
next
  assume "archive \<in> disk w"
  then show "download_cached out callback name link archive (s, w) = (Inr (), (s, w))"
    by (simp add: download_cached_def run bnd_def)
next
  assume "install_targets out s \<subseteq> disk w"
  then show "quiet_extension w (snd (snd (install_inner out callback (s, w))))"
    using install_inner_quiet[OF refl, of out s w callback] by (simp add: quiet_given_def)
next
  assume "install_targets out s \<subseteq> disk w"
  then show "quiet_extension w (snd (snd (install out callback (s, w))))"
    using install_quiet[OF refl, of out s w callback] by (simp add: quiet_given_def)
qed

theorem install_skips_existing_witness:
  "install_targets (outside_with proc_hang) srv_missing \<subseteq> disk world0
   \<and> state srv_missing = ServerState.missing_resources
   \<and> quiet_extension world0
        (snd (snd (install (outside_with proc_hang) silent_callback (srv_missing, world0))))"
proof -
  have t: "install_targets (outside_with proc_hang) srv_missing \<subseteq> disk world0"
    by (auto simp: install_targets_def outside_with_def linux_host_def srv_missing_def world0_def
          fs_complete_def fs_comfy_only_def srv0_def Let_def)
  moreover have "state srv_missing = ServerState.missing_resources"
    by (simp add: srv_missing_def)
  ultimately show ?thesis
    using install_skips_existing[of _ world0 _ srv_missing _ "outside_with proc_hang" silent_callback]
    by blast
qed

lemma no_fetch_fetches_only: "no_fetch \<sigma> \<sigma>' \<Longrightarrow> fetches_only A \<sigma> \<sigma>'"
  unfolding no_fetch_def fetches_only_def by blast

lemma fetches_only_mono: "fetches_only A \<sigma> \<sigma>' \<Longrightarrow> A \<subseteq> B \<Longrightarrow> fetches_only B \<sigma> \<sigma>'"
  unfolding fetches_only_def by blast

lemma fetches_only_refl: "fetches_only A \<sigma> \<sigma>"
  unfolding fetches_only_def by simp

lemma fetches_only_trans:
  assumes "fetches_only A \<sigma> \<sigma>1" "fetches_only A \<sigma>1 \<sigma>2"
  shows "fetches_only A \<sigma> \<sigma>2"
proof -
  from assms(1) obtain es1 where 1: "fst \<sigma>1 = fst \<sigma>" "disk (snd \<sigma>) \<subseteq> disk (snd \<sigma>1)"
      "trace (snd \<sigma>1) = trace (snd \<sigma>) @ es1"
      "\<forall>l a. Download l a \<in> set es1 \<longrightarrow> (l, a) \<in> A \<and> a \<notin> disk (snd \<sigma>)"
    unfolding fetches_only_def by blast
  from assms(2) obtain es2 where 2: "fst \<sigma>2 = fst \<sigma>1" "disk (snd \<sigma>1) \<subseteq> disk (snd \<sigma>2)"
      "trace (snd \<sigma>2) = trace (snd \<sigma>1) @ es2"
      "\<forall>l a. Download l a \<in> set es2 \<longrightarrow> (l, a) \<in> A \<and> a \<notin> disk (snd \<sigma>1)"
    unfolding fetches_only_def by blast
  have "trace (snd \<sigma>2) = trace (snd \<sigma>) @ (es1 @ es2)"
    using 1(3) 2(3) by simp
  moreover have "\<forall>l a. Download l a \<in> set (es1 @ es2) \<longrightarrow> (l, a) \<in> A \<and> a \<notin> disk (snd \<sigma>)"
    using 1(2,4) 2(4) by auto
  ultimately show ?thesis
    unfolding fetches_only_def using 1(1,2) 2(1,2) by (metis subset_trans)
qed

lemma preorder_fetches_only: "preorder (fetches_only A)"
  unfolding preorder_def using fetches_only_refl fetches_only_trans by blast

lemma preorder_no_fetch: "preorder no_fetch"
proof -
  have eq: "no_fetch = fetches_only {}"
    unfolding no_fetch_def fetches_only_def by (intro ext) auto
  show ?thesis unfolding eq by (rule preorder_fetches_only)
qed

lemma no_fetch_modify_fs_insert: "stable no_fetch (modify_fs (insert p))"
  by (rule stableI) (auto simp: modify_fs_def no_fetch_def)

lemma no_fetch_log: "stable no_fetch (log l m)"
  by (rule stableI) (auto simp: log_apply no_fetch_def)

lemma no_fetch_cb: "stable no_fetch (cb callback stg message prog)"
proof (rule stableI)
  fix \<sigma> :: "Server \<times> World"
  obtain s w where \<sigma>: "\<sigma> = (s, w)" by (cases \<sigma>)
  show "no_fetch \<sigma> (snd (cb callback stg message prog \<sigma>))"
    unfolding \<sigma> cb_apply Let_def no_fetch_def by auto
qed

lemmas no_fetch_leaves = no_fetch_modify_fs_insert no_fetch_log no_fetch_cb

lemma transfer_no_fetch: "stable no_fetch (transfer callback name archive r)"
  unfolding transfer_def
  by (intro no_fetch_leaves stable_structure preorder_no_fetch)

lemma download_cached_apply:
  "download_cached out callback name link archive (s, w) =
     (if archive \<in> disk w then (Inr (), (s, w))
      else case cb callback (''Downloading '' @ name)
                  (Some (''Downloading '' @ link @ '' to '' @ str_path archive)) None (s, w) of
             (Inl e, \<sigma>1) \<Rightarrow> (Inl e, \<sigma>1)
           | (Inr x, (s1, w1)) \<Rightarrow>
               transfer callback name archive (download out w1 link archive)
                 (s1, w1 \<lparr> trace := trace w1 @ [Download link archive] \<rparr>))"
proof -
  have step: "thn (cb c a b d) k \<sigma> =
      (case cb c a b d \<sigma> of (Inl e, \<sigma>') \<Rightarrow> (Inl e, \<sigma>') | (Inr x, \<sigma>') \<Rightarrow> k \<sigma>')"
    for c a b d and k :: "unit action" and \<sigma>
    by (simp add: thn_def bnd_def)
  have emit: "thn (emit ev) k \<sigma> = k (fst \<sigma>, (snd \<sigma>) \<lparr> trace := trace (snd \<sigma>) @ [ev] \<rparr>)"
    for ev and k :: "unit action" and \<sigma>
    by (simp add: thn_def bnd_def emit_def)
  have world: "bnd get_world k \<sigma> = k (snd \<sigma>) \<sigma>" for k :: "World \<Rightarrow> unit action" and \<sigma>
    by (simp add: bnd_def get_world_def)
  have there: "bnd (exists_on_disk p) k \<sigma> = k (p \<in> disk (snd \<sigma>)) \<sigma>"
    for p and k :: "bool \<Rightarrow> unit action" and \<sigma>
    by (simp add: bnd_def exists_on_disk_def)
  show ?thesis
    unfolding download_cached_def there when_true_apply step world Let_def emit
      transfer_def[symmetric]
    by (auto split: prod.split sum.split)
qed

lemma download_cached_fetches:
  "fetches_only {(link, archive)} (s, w)
     (snd (download_cached out callback name link archive (s, w)))"
proof (cases "archive \<in> disk w")
  case True
  then show ?thesis
    by (simp add: download_cached_apply fetches_only_refl)
next
  case False
  obtain r1 s1 w1 where c: "cb callback (''Downloading '' @ name)
       (Some (''Downloading '' @ link @ '' to '' @ str_path archive)) None (s, w) = (r1, (s1, w1))"
    by (metis prod.collapse)
  have n1: "no_fetch (s, w) (s1, w1)"
    using stableD[OF no_fetch_cb c] .
  show ?thesis
  proof (cases r1)
    case (Inl e)
    with False c n1 show ?thesis
      by (simp add: download_cached_apply no_fetch_fetches_only)
  next
    case (Inr x)
    let ?w2 = "w1 \<lparr> trace := trace w1 @ [Download link archive] \<rparr>"
    let ?X = "transfer callback name archive (download out w1 link archive) (s1, ?w2)"
    have n3: "no_fetch (s1, ?w2) (snd ?X)"
      using transfer_no_fetch by (rule stableD')
    have res: "download_cached out callback name link archive (s, w) = ?X"
      using False c Inr by (simp add: download_cached_apply)
    from n1 obtain es1 where 1: "s1 = s" "disk w \<subseteq> disk w1" "trace w1 = trace w @ es1"
        "\<forall>l a. Download l a \<notin> set es1"
      unfolding no_fetch_def by auto
    from n3 obtain es3 where 3: "fst (snd ?X) = s1" "disk w1 \<subseteq> disk (snd (snd ?X))"
        "trace (snd (snd ?X)) = trace w1 @ [Download link archive] @ es3"
        "\<forall>l a. Download l a \<notin> set es3"
      unfolding no_fetch_def by auto
    have "trace (snd (snd ?X)) = trace w @ (es1 @ [Download link archive] @ es3)"
      using 1(3) 3(3) by simp
    moreover have "\<forall>l a. Download l a \<in> set (es1 @ [Download link archive] @ es3)
        \<longrightarrow> (l, a) \<in> {(link, archive)} \<and> a \<notin> disk w"
      using 1(4) 3(4) False by auto
    ultimately show ?thesis
      unfolding res fetches_only_def using 1(1,2) 3(1,2) by (metis fst_conv snd_conv subset_trans)
  qed
qed

lemma fetch_optional_fetches:
  assumes "comfy_dir s = Some d"
  shows "fetches_only {(res_url cp, model_file d cp)} (s, w)
           (snd (fetch_optional out callback cp (s, w)))"
proof -
  have "fetch_optional out callback cp (s, w) =
          (if model_file d cp \<in> disk w then (Inr (), (s, w))
           else download_cached out callback (res_name cp) (res_url cp) (model_file d cp) (s, w))"
    using assms
    by (simp add: fetch_optional_def run bnd_def require_def Let_def model_file_def)
  then show ?thesis
    by (simp add: fetches_only_refl download_cached_fetches)
qed

lemma for_each_fetches:
  assumes "comfy_dir s = Some d"
  shows "fetches_only (optional_fetches d cps) (s, w)
           (snd (for_each (fetch_optional out callback) cps (s, w)))"
proof (induction cps arbitrary: w)
  case Nil
  show ?case by (simp add: run fetches_only_refl)
next
  case (Cons cp cps)
  let ?A = "optional_fetches d (cp # cps)"
  obtain r1 s1 w1 where one: "fetch_optional out callback cp (s, w) = (r1, (s1, w1))"
    by (metis prod.collapse)
  have "fetches_only {(res_url cp, model_file d cp)} (s, w) (s1, w1)"
    using fetch_optional_fetches[OF assms, of cp w out callback] one by simp
  then have f1: "fetches_only ?A (s, w) (s1, w1)"
    by (rule fetches_only_mono) (simp add: optional_fetches_def)
  then have s1: "s1 = s" by (simp add: fetches_only_def)
  show ?case
  proof (cases r1)
    case (Inl e)
    with one f1 show ?thesis by (simp add: thn_def bnd_def)
  next
    case (Inr x)
    have "fetches_only (optional_fetches d cps) (s, w1)
           (snd (for_each (fetch_optional out callback) cps (s, w1)))"
      by (rule Cons.IH)
    then have "fetches_only ?A (s, w1) (snd (for_each (fetch_optional out callback) cps (s, w1)))"
      by (rule fetches_only_mono) (auto simp: optional_fetches_def)
    with f1 have "fetches_only ?A (s, w) (snd (for_each (fetch_optional out callback) cps (s, w1)))"
      unfolding s1 by (rule fetches_only_trans)
    with one Inr s1 show ?thesis by (simp add: thn_def bnd_def)
  qed
qed

lemma optional_loop_fetches:
  assumes "comfy_dir s = Some d"
  shows "fetches_only
           (optional_fetches d (filter (\<lambda>cp. res_name cp \<in> set packages) default_checkpoints))
           (s, w) (snd (optional_loop out packages callback (s, w)))"
  unfolding optional_loop_def
proof (rule try_except_pointwise[OF preorder_fetches_only])
  show "fetches_only
           (optional_fetches d (filter (\<lambda>cp. res_name cp \<in> set packages) default_checkpoints))
           (s, w)
           (snd (for_each (fetch_optional out callback)
                  (filter (\<lambda>cp. res_name cp \<in> set packages) default_checkpoints) (s, w)))"
    using assms by (rule for_each_fetches)
next
  fix e
  have "stable no_fetch (thn (log Exception (str_error e)) (raise e))"
    by (intro no_fetch_leaves stable_structure preorder_no_fetch)
  then show "stable
          (fetches_only
            (optional_fetches d (filter (\<lambda>cp. res_name cp \<in> set packages) default_checkpoints)))
          (thn (log Exception (str_error e)) (raise e))"
    unfolding stable_def using no_fetch_fetches_only by blast
qed

lemma install_optional_apply:
  assumes "has_comfy s"
  shows "install_optional out packages callback (s, w) =
     (case optional_loop out packages callback (s \<lparr> state := ServerState.installing \<rparr>, w) of
        (r, (s1, w1)) \<Rightarrow>
          (r, (check_install (host out) (disk w1) (s1 \<lparr> state := state s \<rparr>), w1)))"
proof -
  have fold: "install_optional out packages callback =
     bnd get_server (\<lambda>s.
       if \<not> has_comfy s
       then raise (AssertionError ''Must install ComfyUI before downloading checkpoints'')
       else
         (let prev_state = state s in
          thn (modify_server (\<lambda>s. s \<lparr> state := ServerState.installing \<rparr>))
              (try_finally (optional_loop out packages callback)
                (thn (modify_server (\<lambda>s. s \<lparr> state := prev_state \<rparr>))
                     (do_check_install out)))))"
    unfolding install_optional_def optional_loop_def fetch_optional_def[abs_def] ..
  show ?thesis
    unfolding fold bnd_get_server
    using assms
    by (simp add: thn_modify_server try_finally_def do_check_install_def modify_server_def
          thn_def bnd_def Let_def split: prod.split)
qed

text \<open>
  C9: with the backend root present, \<open>install_optional\<close> runs its downloads with the state set
  to \<open>installing\<close>; on success and on failure alike it then sets the state back to its value
  before the call and probes the disk, and only then returns or passes the error on. The
  state after the call is therefore the one the probe gives. Every download it starts is
  of an optional checkpoint that is named in the request and whose file was absent.
\<close>

theorem install_optional_restores_and_probes:
  assumes "comfy_dir s = Some d"
  shows "\<exists>r s1 w1 es.
           optional_loop out packages callback (s \<lparr> state := ServerState.installing \<rparr>, w)
             = (r, (s1, w1))
         \<and> state s1 = ServerState.installing
         \<and> s1 \<lparr> state := state s \<rparr> = s
         \<and> install_optional out packages callback (s, w)
             = (r, (check_install (host out) (disk w1) (s1 \<lparr> state := state s \<rparr>), w1))
         \<and> trace w1 = trace w @ es
         \<and> (\<forall>l a. Download l a \<in> set es \<longrightarrow>
               a \<notin> disk w
             \<and> (\<exists>cp \<in> set default_checkpoints.
                   res_name cp \<in> set packages \<and> l = res_url cp \<and> a = model_file d cp))"
proof -
  let ?s0 = "s \<lparr> state := ServerState.installing \<rparr>"
  let ?cps = "filter (\<lambda>cp. res_name cp \<in> set packages) default_checkpoints"
  obtain r s1 w1 where loop: "optional_loop out packages callback (?s0, w) = (r, (s1, w1))"
    by (metis prod.collapse)
  have cd: "comfy_dir ?s0 = Some d" using assms by simp
  have "fetches_only (optional_fetches d ?cps) (?s0, w) (s1, w1)"
    using optional_loop_fetches[OF cd, of packages w out callback] loop by simp
  then obtain es where s1: "s1 = ?s0" and tr: "trace w1 = trace w @ es"
      and dl: "\<forall>l a. Download l a \<in> set es \<longrightarrow> (l, a) \<in> optional_fetches d ?cps \<and> a \<notin> disk w"
    unfolding fetches_only_def by auto
  have hc: "has_comfy s" using assms by (simp add: has_comfy_def)
  have restored: "s1 \<lparr> state := state s \<rparr> = s" by (simp add: s1)
  have res: "install_optional out packages callback (s, w)
             = (r, (check_install (host out) (disk w1) (s1 \<lparr> state := state s \<rparr>), w1))"
    by (simp add: install_optional_apply[OF hc] loop)
  have named: "\<forall>l a. Download l a \<in> set es \<longrightarrow>
               a \<notin> disk w
             \<and> (\<exists>cp \<in> set default_checkpoints.
                   res_name cp \<in> set packages \<and> l = res_url cp \<and> a = model_file d cp)"
    using dl by (auto simp: optional_fetches_def)
  have st: "state s1 = ServerState.installing" by (simp add: s1)
  from loop st restored res tr named show ?thesis by blast
qed

section \<open>The url field\<close>

lemma respects_url_kept: "respects_url url_kept"
  unfolding respects_url_def preorder_def url_kept_def by simp

lemma respects_url_not_reset: "respects_url url_not_reset"
  unfolding respects_url_def preorder_def url_not_reset_def by simp

lemma preorder_on_server: "respects_url Q \<Longrightarrow> preorder (on_server Q)"
  unfolding respects_url_def preorder_def on_server_def by blast

lemma url_modify_server:
  "respects_url Q \<Longrightarrow> (\<And>s. url (f s) = url s) \<Longrightarrow> stable (on_server Q) (modify_server f)"
  by (rule stableI) (simp add: modify_server_def on_server_def respects_url_def)

lemma url_world_only:
  assumes "respects_url Q" "\<And>\<sigma>. fst (snd (m \<sigma>)) = fst \<sigma>"
  shows "stable (on_server Q) m"
  using assms by (intro stableI) (simp add: on_server_def respects_url_def)

lemma url_modify_fs: "respects_url Q \<Longrightarrow> stable (on_server Q) (modify_fs f)"
  by (rule url_world_only) (simp_all add: modify_fs_def)

lemma url_emit: "respects_url Q \<Longrightarrow> stable (on_server Q) (emit ev)"
  by (rule url_world_only) (simp_all add: emit_def)

lemma url_log: "respects_url Q \<Longrightarrow> stable (on_server Q) (log l m)"
  by (rule url_world_only) (simp_all add: log_def emit_def)

lemma url_check_install: "url (check_install h fs s) = url s"
  by (simp add: check_install_stages classify_frame locate_fields)

lemma url_do_check_install: "respects_url Q \<Longrightarrow> stable (on_server Q) (do_check_install out)"
  by (rule stableI)
     (simp add: do_check_install_def on_server_def respects_url_def url_check_install)

lemmas url_leaves =
  url_modify_server url_modify_fs url_emit url_log url_do_check_install

lemma url_cb: "respects_url Q \<Longrightarrow> stable (on_server Q) (cb callback stg message prog)"
  unfolding cb_def
  by (intro url_leaves stable_structure preorder_on_server)

lemma url_mkdir: "respects_url Q \<Longrightarrow> stable (on_server Q) (mkdir p)"
  unfolding mkdir_def
  by (intro url_leaves stable_structure preorder_on_server)

lemma url_rmtree: "respects_url Q \<Longrightarrow> stable (on_server Q) (rmtree p)"
  unfolding rmtree_def
  by (intro url_leaves stable_structure preorder_on_server)

lemma url_rename: "respects_url Q \<Longrightarrow> stable (on_server Q) (rename a b)"
  unfolding rename_def
  by (intro url_leaves stable_structure preorder_on_server)

lemma url_append_file: "respects_url Q \<Longrightarrow> stable (on_server Q) (append_file p l)"
  unfolding append_file_def
  by (intro url_leaves stable_structure preorder_on_server)

lemma url_prepend_file: "respects_url Q \<Longrightarrow> stable (on_server Q) (prepend_file p l)"
  unfolding prepend_file_def
  by (intro url_leaves stable_structure preorder_on_server)

lemma url_rename_extracted_folder:
  "respects_url Q \<Longrightarrow> stable (on_server Q) (rename_extracted_folder name p sfx)"
  unfolding rename_extracted_folder_def
  by (intro url_rename url_leaves stable_structure preorder_on_server)

lemma url_download_cached:
  "respects_url Q \<Longrightarrow> stable (on_server Q) (download_cached out callback name link archive)"
  unfolding download_cached_def
  by (intro url_cb url_leaves stable_structure preorder_on_server)

lemma url_extract_archive:
  "respects_url Q \<Longrightarrow> stable (on_server Q) (extract_archive out callback name archive target)"
  unfolding extract_archive_def
  by (intro url_cb url_leaves stable_structure preorder_on_server)

lemma url_execute_process:
  "respects_url Q \<Longrightarrow> stable (on_server Q) (execute_process out callback name cmd cwd)"
  unfolding execute_process_def
  by (intro url_cb url_leaves stable_structure preorder_on_server)

lemma url_install_if_missing:
  "respects_url Q \<Longrightarrow> stable (on_server Q) installer \<Longrightarrow>
     stable (on_server Q) (install_if_missing p installer)"
  unfolding install_if_missing_def
  by (intro url_rmtree url_leaves stable_structure preorder_on_server)

lemmas url_steps =
  url_cb url_mkdir url_rmtree url_rename url_append_file url_prepend_file
  url_rename_extracted_folder url_download_cached url_extract_archive url_execute_process
  url_install_if_missing

lemma url_install_python: "respects_url Q \<Longrightarrow> stable (on_server Q) (install_python out callback)"
  unfolding install_python_def
  by (intro url_steps url_leaves stable_structure preorder_on_server)

lemma url_install_comfy: "respects_url Q \<Longrightarrow> stable (on_server Q) (install_comfy out callback)"
  unfolding install_comfy_def
  by (intro url_steps url_leaves stable_structure preorder_on_server)

lemma url_install_custom_node:
  "respects_url Q \<Longrightarrow> stable (on_server Q) (install_custom_node out callback pkg)"
  unfolding install_custom_node_def
  by (intro url_steps url_leaves stable_structure preorder_on_server)

lemma url_install_inner: "respects_url Q \<Longrightarrow> stable (on_server Q) (install_inner out callback)"
  unfolding install_inner_def
  by (intro url_install_python url_install_comfy url_install_custom_node
        url_steps url_leaves stable_structure preorder_on_server) simp_all

lemma url_install: "respects_url Q \<Longrightarrow> stable (on_server Q) (install out callback)"
  unfolding install_def
  by (intro url_install_inner url_steps url_leaves stable_structure preorder_on_server) simp_all

lemma url_install_optional:
  "respects_url Q \<Longrightarrow> stable (on_server Q) (install_optional out packages callback)"
  unfolding install_optional_def
  by (intro url_steps url_leaves stable_structure preorder_on_server) simp_all

lemma url_the_process: "respects_url Q \<Longrightarrow> stable (on_server Q) the_process"
  unfolding the_process_def
  by (intro url_leaves stable_structure preorder_on_server)

lemma url_the_task: "respects_url Q \<Longrightarrow> stable (on_server Q) the_task"
  unfolding the_task_def
  by (intro url_leaves stable_structure preorder_on_server)

lemma url_wait_for_communicate:
  "respects_url Q \<Longrightarrow> stable (on_server Q) (wait_for_communicate t)"
  unfolding wait_for_communicate_def
  by (intro url_the_process url_leaves stable_structure preorder_on_server) simp_all

lemma url_stop: "respects_url Q \<Longrightarrow> stable (on_server Q) stop"
  unfolding stop_def
  by (intro url_the_process url_the_task url_wait_for_communicate
        url_leaves stable_structure preorder_on_server) simp_all

lemma url_terminate: "respects_url Q \<Longrightarrow> stable (on_server Q) terminate"
  unfolding terminate_def
  by (intro url_leaves stable_structure preorder_on_server)

lemma not_reset_read_startup: "stable (on_server url_not_reset) (read_startup ls)"
proof (induction ls)
  case Nil
  show ?case
    by (simp only: read_startup.simps stable_return preorder_on_server respects_url_not_reset)
next
  case (Cons l ls)
  note P = preorder_on_server[OF respects_url_not_reset]
  have ready: "stable (on_server url_not_reset)
       (modify_server (\<lambda>s. s \<lparr> state := ServerState.running, url := Some u \<rparr>))" for u
    by (rule stableI) (simp add: modify_server_def on_server_def url_not_reset_def)
  show ?case
    unfolding read_startup.simps
    by (intro ready Cons url_leaves[OF respects_url_not_reset] stable_structure P) simp_all
qed

lemma not_reset_start: "stable (on_server url_not_reset) (start out)"
  unfolding start_def
  by (intro not_reset_read_startup url_the_process url_wait_for_communicate
        url_leaves stable_structure preorder_on_server respects_url_not_reset) simp_all

lemma not_reset_perform:
  "url_not_reset (fst \<sigma>) (fst (perform out op \<sigma>))"
proof -
  note R = respects_url_not_reset
  have "on_server url_not_reset \<sigma> (perform out op \<sigma>)"
  proof (cases op)
    case CheckInstall
    then show ?thesis using stableD'[OF url_do_check_install[OF R]] by (simp add: perform_def)
  next
    case (Install callback)
    then show ?thesis using stableD'[OF url_install[OF R]] by (simp add: perform_def)
  next
    case (InstallOptional packages callback)
    then show ?thesis using stableD'[OF url_install_optional[OF R]] by (simp add: perform_def)
  next
    case Start
    then show ?thesis using stableD'[OF not_reset_start] by (simp add: perform_def)
  next
    case Stop
    then show ?thesis using stableD'[OF url_stop[OF R]] by (simp add: perform_def)
  next
    case TerminateNow
    then show ?thesis using stableD'[OF url_terminate[OF R]] by (simp add: perform_def)
  qed
  then show ?thesis by (simp add: on_server_def)
qed

lemma not_reset_perform_all:
  "url_not_reset (fst \<sigma>) (fst (perform_all out ops \<sigma>))"
proof (induction ops arbitrary: \<sigma>)
  case Nil
  show ?case by (simp add: url_not_reset_def)
next
  case (Cons op ops)
  have "url_not_reset (fst \<sigma>) (fst (perform out op \<sigma>))"
    by (rule not_reset_perform)
  moreover have "url_not_reset (fst (perform out op \<sigma>)) (fst (perform_all out ops (perform out op \<sigma>)))"
    by (rule Cons.IH)
  ultimately show ?case
    by (simp add: url_not_reset_def)
qed

lemma kept_perform:
  assumes "op \<noteq> Start"
  shows "url (fst (perform out op \<sigma>)) = url (fst \<sigma>)"
proof -
  note R = respects_url_kept
  have "on_server url_kept \<sigma> (perform out op \<sigma>)"
  proof (cases op)
    case CheckInstall
    then show ?thesis using stableD'[OF url_do_check_install[OF R]] by (simp add: perform_def)
  next
    case (Install callback)
    then show ?thesis using stableD'[OF url_install[OF R]] by (simp add: perform_def)
  next
    case (InstallOptional packages callback)
    then show ?thesis using stableD'[OF url_install_optional[OF R]] by (simp add: perform_def)
  next
    case Start
    with assms show ?thesis by simp
  next
    case Stop
    then show ?thesis using stableD'[OF url_stop[OF R]] by (simp add: perform_def)
  next
    case TerminateNow
    then show ?thesis using stableD'[OF url_terminate[OF R]] by (simp add: perform_def)
  qed
  then show ?thesis by (simp add: on_server_def url_kept_def)
qed

text \<open>
  C10: \<open>stop\<close> leaves \<open>url\<close> as it is, so after \<open>stop\<close> it still holds what the last
  successful \<open>start\<close> set although the state is \<open>stopped\<close>; the only operation that writes
  \<open>url\<close> is \<open>start\<close>, which writes a value that is present, so that no sequence of
  operations takes a \<open>url\<close> that is present back to absent.
\<close>

theorem url_never_reset:
  "url (fst (snd (stop (s, w)))) = url s
   \<and> (op \<noteq> Start \<longrightarrow> url (fst (perform out op (s, w))) = url s)
   \<and> (url s \<noteq> None \<longrightarrow> url (fst (perform_all out ops (s, w))) \<noteq> None)"
proof (intro conjI impI)
  show "url (fst (snd (stop (s, w)))) = url s"
    using stableD'[OF url_stop[OF respects_url_kept], of "(s, w)"]
    by (simp add: on_server_def url_kept_def)
next
  assume "op \<noteq> Start"
  then show "url (fst (perform out op (s, w))) = url s"
    using kept_perform[of op out "(s, w)"] by simp
next
  assume "url s \<noteq> None"
  then show "url (fst (perform_all out ops (s, w))) \<noteq> None"
    using not_reset_perform_all[of "(s, w)" out ops] by (simp add: url_not_reset_def)
qed

theorem url_never_reset_witness:
  "url srv_running = Some ''localhost:9000''
   \<and> state (fst (snd (stop (srv_running, world0)))) = ServerState.stopped
   \<and> url (fst (snd (stop (srv_running, world0)))) = Some ''localhost:9000''
   \<and> url (fst (perform_all (outside_with proc_crash) [Stop, Start, CheckInstall]
             (srv_running, world0))) \<noteq> None"
proof -
  have u: "url srv_running = Some ''localhost:9000''"
    by (simp add: srv_running_def)
  have r: "state srv_running = ServerState.running"
    by (simp add: srv_running_def)
  have st: "state (fst (snd (stop (srv_running, world0)))) = ServerState.stopped"
    using stop_with_handles[of srv_running proc_hang "ForwardTask 9" world0] r
    by (simp add: srv_running_def)
  from url_never_reset[of srv_running world0 Stop "outside_with proc_crash"
         "[Stop, Start, CheckInstall]"] u st
  show ?thesis by simp
qed

section \<open>Handles in reachable states\<close>
















lemma state_init_complete: "state (check_install linux_host fs_complete srv0) = ServerState.stopped"
proof -
  have b: "\<not> ((\<exists>n \<in> set required_custom_nodes. node_dir [''srv''] n \<notin> fs_complete)
              \<or> (\<exists>m \<in> set required_models. model_file [''srv''] m \<notin> fs_complete))"
    by (simp add: fs_complete_def)
  have "backend_root_found fs_complete srv0"
    using eval_complete_comfy_dir[of linux_host] has_comfy_check_install[of linux_host fs_complete srv0]
    by (simp add: has_comfy_def)
  moreover have "interpreter_found linux_host fs_complete srv0"
    using eval_complete_python by (simp add: has_python_check_install)
  ultimately show ?thesis
    using b by (simp add: state_check_install eval_complete_comfy_dir)
qed


section \<open>Fetching one optional checkpoint into a complete installation\<close>

text \<open>
  A run of \<open>install_optional\<close> for the package DreamShaper on a disk that holds every
  required resource and no checkpoint: the server enters in state \<open>missing_resources\<close>,
  the loop downloads the one file, and the probe that follows finds a checkpoint and
  leaves the state \<open>stopped\<close>.
\<close>

lemma dreamshaper_absent: "dreamshaper_file \<notin> fs_complete"
  by (auto simp: dreamshaper_file_def fs_complete_def fs_comfy_only_def node_dir_def model_file_def
        required_custom_nodes_def required_models_def)

lemma optional_loop_dreamshaper:
  "optional_loop (outside_with proc_hang) [''DreamShaper''] silent_callback
     (srv_missing \<lparr> state := ServerState.installing \<rparr>, world0)
   = (Inr (), (srv_missing \<lparr> state := ServerState.installing \<rparr>,
        \<lparr> disk = insert dreamshaper_file fs_complete,
          trace = [Log Info (''Downloading '' @ dreamshaper_url @ '' to '' @ str_path dreamshaper_file),
                   Notify \<lparr> stage = ''Downloading DreamShaper'', progress = None \<rparr>,
                   Download dreamshaper_url dreamshaper_file] \<rparr>))"
proof -
  have sel: "filter (\<lambda>cp. res_name cp \<in> set [''DreamShaper'']) default_checkpoints
      = [\<lparr> res_name = ''DreamShaper'', res_kind = checkpoint,
          res_folder = [''models'', ''checkpoints''],
          res_filename = ''dreamshaper_8.safetensors'', res_url = dreamshaper_url \<rparr>]"
    by (simp add: default_checkpoints_def dreamshaper_url_def)
  have absent: "[''srv'', ''models'', ''checkpoints'', ''dreamshaper_8.safetensors''] \<notin> disk world0"
    using dreamshaper_absent by (simp add: world0_def dreamshaper_file_def)
  show ?thesis
    unfolding optional_loop_def sel
    using absent
    by (simp add: fetch_optional_def download_cached_apply cb_apply transfer_def
          run bnd_def thn_def try_except_def require_def Let_def
          srv_missing_def silent_callback_def outside_with_def world0_def
          dreamshaper_file_def[symmetric] str_path_def)
qed

lemma state_checkpoint_indep:
  assumes root: "comfy_dir (check_install h fs s) = Some d"
      and interp: "has_python (check_install h fs s)"
      and same: "\<And>p. p \<notin> checkpoint_files d \<Longrightarrow> (p \<in> fs') = (p \<in> fs)"
  shows "state (check_install h fs' s) = state (check_install h fs s)"
proof -
  have found: "backend_root_found fs s" "interpreter_found h fs s"
    using root interp has_comfy_check_install[of h fs s] has_python_check_install[of h fs s]
    by (simp_all add: has_comfy_def)
  note ind = probe_checkpoint_indep[OF root same]
  have req: "(\<forall>n \<in> set required_custom_nodes. node_dir d n \<in> fs') =
             (\<forall>n \<in> set required_custom_nodes. node_dir d n \<in> fs)"
            "(\<forall>m \<in> set required_models. model_file d m \<in> fs') =
             (\<forall>m \<in> set required_models. model_file d m \<in> fs)"
    using same required_not_checkpoint by blast+
  have "state (check_install h fs' s) =
         (if (\<forall>n \<in> set required_custom_nodes. node_dir d n \<in> fs')
            \<and> (\<forall>m \<in> set required_models. model_file d m \<in> fs')
          then ServerState.stopped else ServerState.missing_resources)"
    using found ind by (subst state_check_install) simp
  moreover have "state (check_install h fs s) =
         (if (\<forall>n \<in> set required_custom_nodes. node_dir d n \<in> fs)
            \<and> (\<forall>m \<in> set required_models. model_file d m \<in> fs)
          then ServerState.stopped else ServerState.missing_resources)"
    using found root by (subst state_check_install) simp
  ultimately show ?thesis
    using req by simp
qed

lemma state_after_dreamshaper:
  "state (check_install linux_host (insert dreamshaper_file fs_complete) srv_missing)
     = ServerState.stopped"
proof -
  have "state (check_install linux_host (insert dreamshaper_file fs_complete) srv_missing)
      = state (check_install linux_host (insert dreamshaper_file fs_complete) srv0)"
    by (rule state_probe_depends_on_path) (simp add: srv_missing_def)
  also have "\<dots> = state (check_install linux_host fs_complete srv0)"
  proof (rule state_checkpoint_indep[OF eval_complete_comfy_dir eval_complete_python])
    fix p
    assume "p \<notin> checkpoint_files [''srv'']"
    then have "p \<noteq> dreamshaper_file"
      by (auto simp: checkpoint_files_def default_checkpoints_def model_file_def dreamshaper_file_def)
    then show "(p \<in> insert dreamshaper_file fs_complete) = (p \<in> fs_complete)"
      by simp
  qed
  also have "\<dots> = ServerState.stopped"
    by (rule state_init_complete)
  finally show ?thesis .
qed

theorem install_optional_restores_and_probes_witness:
  "state srv_missing = ServerState.missing_resources
   \<and> fst (install_optional (outside_with proc_hang) [''DreamShaper''] silent_callback
            (srv_missing, world0)) = Inr ()
   \<and> state (fst (snd (install_optional (outside_with proc_hang) [''DreamShaper''] silent_callback
            (srv_missing, world0)))) = ServerState.stopped
   \<and> trace (snd (snd (install_optional (outside_with proc_hang) [''DreamShaper''] silent_callback
            (srv_missing, world0))))
      = [Log Info (''Downloading '' @ dreamshaper_url @ '' to '' @ str_path dreamshaper_file),
         Notify \<lparr> stage = ''Downloading DreamShaper'', progress = None \<rparr>,
         Download dreamshaper_url dreamshaper_file]"
proof -
  have c: "comfy_dir srv_missing = Some [''srv'']"
    by (simp add: srv_missing_def)
  have h: "host (outside_with proc_hang) = linux_host"
    by (simp add: outside_with_def)
  have m: "state srv_missing = ServerState.missing_resources"
    by (simp add: srv_missing_def)
  from install_optional_restores_and_probes[OF c, of "outside_with proc_hang" "[''DreamShaper'']"
         silent_callback world0]
  obtain r s1 w1 where
      loop: "optional_loop (outside_with proc_hang) [''DreamShaper''] silent_callback
               (srv_missing \<lparr> state := ServerState.installing \<rparr>, world0) = (r, (s1, w1))"
    and restored: "s1 \<lparr> state := state srv_missing \<rparr> = srv_missing"
    and res: "install_optional (outside_with proc_hang) [''DreamShaper''] silent_callback
               (srv_missing, world0)
             = (r, (check_install (host (outside_with proc_hang)) (disk w1)
                      (s1 \<lparr> state := state srv_missing \<rparr>), w1))"
    by blast
  define W where "W = \<lparr> disk = insert dreamshaper_file fs_complete,
          trace = [Log Info (''Downloading '' @ dreamshaper_url @ '' to '' @ str_path dreamshaper_file),
                   Notify \<lparr> stage = ''Downloading DreamShaper'', progress = None \<rparr>,
                   Download dreamshaper_url dreamshaper_file] \<rparr>"
  have "(r, (s1, w1)) = (Inr (), (srv_missing \<lparr> state := ServerState.installing \<rparr>, W))"
    unfolding W_def loop[symmetric] by (rule optional_loop_dreamshaper)
  then have "r = Inr ()" "w1 = W" by simp_all
  then have w1: "r = Inr ()" "disk w1 = insert dreamshaper_file fs_complete"
      "trace w1 = [Log Info (''Downloading '' @ dreamshaper_url @ '' to '' @ str_path dreamshaper_file),
         Notify \<lparr> stage = ''Downloading DreamShaper'', progress = None \<rparr>,
         Download dreamshaper_url dreamshaper_file]"
    by (simp_all add: W_def)
  show ?thesis
    by (simp only: res restored[unfolded m] h w1 m fst_conv snd_conv state_after_dreamshaper simp_thms)
qed

end
